theory Spec2Isabelle
  imports Complex_Main
begin

section \<open>Python values used by the invoice generator\<close>

subsection \<open>Strings\<close>

text \<open>
  A Python \<open>str\<close> is a sequence of Unicode code points. The dictionaries of the program
  hold French and Arabic text, and \<open>strip\<close> and \<open>upper\<close> work per code point, so a string
  is modelled as the list of its code points. \<open>lit\<close> embeds an ASCII literal.
\<close>

type_synonym pystr = "nat list"

definition lit :: "string \<Rightarrow> pystr" where
  "lit s = map of_char s"

definition nl :: pystr where
  "nl = [10]"

definition dq :: pystr where
  "dq = [34]"

text \<open>The code points for which \<open>str.isspace\<close> holds; \<open>str.strip()\<close> removes them at both ends.\<close>

definition py_isspace :: "nat \<Rightarrow> bool" where
  "py_isspace c \<longleftrightarrow>
     (9 \<le> c \<and> c \<le> 13) \<or> (28 \<le> c \<and> c \<le> 32) \<or> c = 133 \<or> c = 160 \<or> c = 5760 \<or>
     (8192 \<le> c \<and> c \<le> 8202) \<or> c = 8232 \<or> c = 8233 \<or> c = 8239 \<or> c = 8287 \<or> c = 12288"

definition strip :: "pystr \<Rightarrow> pystr" where
  "strip s = rev (dropWhile py_isspace (rev (dropWhile py_isspace s)))"

text \<open>
  \<open>str.upper()\<close> maps each code point on its own. For ASCII it shifts the letters a..z;
  for any other code point the result comes from the Unicode case tables, which are taken
  as the parameter \<open>u\<close> (one code point may become several, as U+00DF does).
\<close>

definition ascii_upper :: "nat \<Rightarrow> nat" where
  "ascii_upper c = (if 97 \<le> c \<and> c \<le> 122 then c - 32 else c)"

definition upper :: "(nat \<Rightarrow> pystr) \<Rightarrow> pystr \<Rightarrow> pystr" where
  "upper u s = concat (map (\<lambda>c. if c < 128 then [ascii_upper c] else u c) s)"

text \<open>Decimal digits of a natural number, and \<open>str(i)\<close> for an int.\<close>

fun digits :: "nat \<Rightarrow> pystr" where
  "digits n = (if n < 10 then [48 + n] else digits (n div 10) @ [48 + n mod 10])"

declare digits.simps [simp del]

definition str_int :: "int \<Rightarrow> pystr" where
  "str_int i = (if i < 0 then 45 # digits (nat (- i)) else digits (nat i))"

subsection \<open>Errors\<close>

text \<open>
  The exceptions that the program can raise. From its own operations: a missing
  dictionary key, an int too large to convert to float, a float division by zero. From
  the PDF library: \<open>ValueError\<close> when a colour string or the markup of a paragraph is
  rejected, the failure to read an uploaded image, and the failure to lay the story out.
\<close>

datatype error =
    KeyError pystr
  | OverflowError
  | ZeroDivisionError
  | ValueError
  | ImageError
  | LayoutError

definition bind :: "error + 'a \<Rightarrow> ('a \<Rightarrow> error + 'b) \<Rightarrow> error + 'b" where
  "bind r f = (case r of Inl e \<Rightarrow> Inl e | Inr v \<Rightarrow> f v)"

type_synonym lang_dict = "pystr \<rightharpoonup> pystr"

definition dict_get :: "(pystr \<rightharpoonup> 'v) \<Rightarrow> pystr \<Rightarrow> error + 'v" where
  "dict_get d k = (case d k of None \<Rightarrow> Inl (KeyError k) | Some v \<Rightarrow> Inr v)"

subsection \<open>Floats\<close>

text \<open>
  A Python float is an IEEE 754 binary64 value: a sign with a magnitude, an infinity, or
  a NaN. The magnitude is kept as the rational it denotes; \<open>Finite True 0\<close> is \<open>-0.0\<close>.
  Every operation computes the exact result and rounds it to the nearest binary64 value,
  ties to the even significand; a rounded magnitude of \<open>2 ^ 1024\<close> or more overflows.
\<close>

datatype pyfloat = Finite bool rat | Infinity bool | NaN

fun bit_length :: "nat \<Rightarrow> nat" where
  "bit_length n = (if n = 0 then 0 else Suc (bit_length (n div 2)))"

declare bit_length.simps [simp del]

definition pow2 :: "int \<Rightarrow> rat" where
  "pow2 e = (if 0 \<le> e then 2 ^ nat e else 1 / 2 ^ nat (- e))"

text \<open>\<open>floor_log2 x\<close> is the integer \<open>k\<close> with \<open>2 ^ k \<le> x < 2 ^ (k + 1)\<close>, for \<open>0 < x\<close>.\<close>

definition floor_log2 :: "rat \<Rightarrow> int" where
  "floor_log2 x =
     (if 1 \<le> x then int (bit_length (nat \<lfloor>x\<rfloor>)) - 1
      else - int (bit_length (nat (\<lceil>1 / x\<rceil> - 1))))"

definition round_half_even :: "rat \<Rightarrow> int" where
  "round_half_even x =
     (let f = \<lfloor>x\<rfloor>; d = x - of_int f in
      if d < 1 / 2 then f else if 1 / 2 < d then f + 1 else if even f then f else f + 1)"

text \<open>
  Rounding a magnitude to binary64: 53 significant bits, the unit in the last place
  never below \<open>2 ^ - 1074\<close> (subnormal numbers).
\<close>

definition round_binary64 :: "rat \<Rightarrow> rat" where
  "round_binary64 x =
     (if x = 0 then 0
      else let e = max (- 1074) (floor_log2 x - 52)
           in of_int (round_half_even (x / pow2 e)) * pow2 e)"

definition float_round :: "bool \<Rightarrow> rat \<Rightarrow> pyfloat" where
  "float_round s x =
     (let r = round_binary64 x in if 2 ^ 1024 \<le> r then Infinity s else Finite s r)"

definition is_binary64 :: "pyfloat \<Rightarrow> bool" where
  "is_binary64 x =
     (case x of Finite s m \<Rightarrow> 0 \<le> m \<and> m < 2 ^ 1024 \<and> round_binary64 m = m | _ \<Rightarrow> True)"

definition signed :: "bool \<Rightarrow> rat \<Rightarrow> rat" where
  "signed s x = (if s then - x else x)"

fun float_mul :: "pyfloat \<Rightarrow> pyfloat \<Rightarrow> pyfloat" where
  "float_mul NaN y = NaN"
| "float_mul (Finite s x) NaN = NaN"
| "float_mul (Infinity s) NaN = NaN"
| "float_mul (Infinity s) (Infinity t) = Infinity (s \<noteq> t)"
| "float_mul (Infinity s) (Finite t y) = (if y = 0 then NaN else Infinity (s \<noteq> t))"
| "float_mul (Finite s x) (Infinity t) = (if x = 0 then NaN else Infinity (s \<noteq> t))"
| "float_mul (Finite s x) (Finite t y) = float_round (s \<noteq> t) (x * y)"

fun float_add :: "pyfloat \<Rightarrow> pyfloat \<Rightarrow> pyfloat" where
  "float_add NaN y = NaN"
| "float_add (Finite s x) NaN = NaN"
| "float_add (Infinity s) NaN = NaN"
| "float_add (Infinity s) (Infinity t) = (if s = t then Infinity s else NaN)"
| "float_add (Infinity s) (Finite t y) = Infinity s"
| "float_add (Finite s x) (Infinity t) = Infinity t"
| "float_add (Finite s x) (Finite t y) =
     (let z = signed s x + signed t y
      in if z = 0 then Finite (s \<and> t) 0 else float_round (z < 0) \<bar>z\<bar>)"

fun ieee_div :: "pyfloat \<Rightarrow> pyfloat \<Rightarrow> pyfloat" where
  "ieee_div NaN y = NaN"
| "ieee_div (Finite s x) NaN = NaN"
| "ieee_div (Infinity s) NaN = NaN"
| "ieee_div (Infinity s) (Infinity t) = NaN"
| "ieee_div (Infinity s) (Finite t y) = Infinity (s \<noteq> t)"
| "ieee_div (Finite s x) (Infinity t) = Finite (s \<noteq> t) 0"
| "ieee_div (Finite s x) (Finite t y) = float_round (s \<noteq> t) (x / y)"

text \<open>\<open>a / b\<close> on floats raises on a zero divisor before anything else.\<close>

definition float_truediv :: "pyfloat \<Rightarrow> pyfloat \<Rightarrow> error + pyfloat" where
  "float_truediv a b =
     (if b = Finite False 0 \<or> b = Finite True 0 then Inl ZeroDivisionError
      else Inr (ieee_div a b))"

text \<open>
  An int operand of a float operation is converted first, correctly rounded; the
  conversion raises when the int is beyond the float range.
\<close>

definition float_of_int :: "int \<Rightarrow> error + pyfloat" where
  "float_of_int i =
     (case float_round (i < 0) (of_int \<bar>i\<bar>) of
        Infinity s \<Rightarrow> Inl OverflowError
      | f \<Rightarrow> Inr f)"

definition int_mul_float :: "int \<Rightarrow> pyfloat \<Rightarrow> error + pyfloat" where
  "int_mul_float i x = bind (float_of_int i) (\<lambda>a. Inr (float_mul a x))"

definition float_div_int :: "pyfloat \<Rightarrow> int \<Rightarrow> error + pyfloat" where
  "float_div_int x i = bind (float_of_int i) (\<lambda>b. float_truediv x b)"

text \<open>
  The format \<open>f"{x:.2f}"\<close>: the exact decimal expansion of the binary value, correctly
  rounded to two fractional digits (a tie goes to the even digit), behind the sign.
\<close>

definition sign_str :: "bool \<Rightarrow> pystr" where
  "sign_str s = (if s then [45] else [])"

definition format_2f :: "pyfloat \<Rightarrow> pystr" where
  "format_2f x =
     (case x of
        NaN \<Rightarrow> lit ''nan''
      | Infinity s \<Rightarrow> sign_str s @ lit ''inf''
      | Finite s m \<Rightarrow>
          (let c = nat (round_half_even (m * 100))
           in sign_str s @ digits (c div 100) @ [46, 48 + c mod 100 div 10, 48 + c mod 10]))"

subsection \<open>Dates and the clock\<close>

record pydate =
  year :: nat
  month :: nat
  day :: nat

record pydatetime = pydate +
  hour :: nat
  minute :: nat
  second :: nat

definition pad2 :: "nat \<Rightarrow> pystr" where
  "pad2 n = (if n < 10 then 48 # digits n else digits n)"

text \<open>
  \<open>strftime("%d/%m/%Y")\<close> and \<open>strftime('%H:%M')\<close>. Day, month, hour and minute are
  padded to two digits; the year is written by the platform's \<open>%Y\<close>, without padding.
\<close>

definition strftime_dmY :: "('a pydate_scheme) \<Rightarrow> pystr" where
  "strftime_dmY d = pad2 (day d) @ [47] @ pad2 (month d) @ [47] @ digits (year d)"

definition strftime_HM :: "pydatetime \<Rightarrow> pystr" where
  "strftime_HM t = pad2 (hour t) @ [58] @ pad2 (minute t)"

section \<open>Language dictionaries\<close>

text \<open>
  The three dictionaries of \<open>LANGUAGES\<close>, in the order of the source. Text outside ASCII
  is written as its code points.
\<close>

definition LANG_en :: "(pystr \<times> pystr) list" where
  "LANG_en = [
     (lit ''document_type_label'', lit ''Document Type''),
     (lit ''invoice'', lit ''Invoice''),
     (lit ''quote'', lit ''Quote''),
     (lit ''number'', lit ''Number''),
     (lit ''date'', lit ''Date''),
     (lit ''due_date'', lit ''Due Date''),
     (lit ''from'', lit ''From''),
     (lit ''to'', lit ''To''),
     (lit ''tax_id'', lit ''Tax ID''),
     (lit ''mobile'', lit ''Mobile''),
     (lit ''email'', lit ''Email''),
     (lit ''details'', lit ''Details''),
     (lit ''description'', lit ''Description''),
     (lit ''quantity'', lit ''Quantity''),
     (lit ''unit_price'', lit ''Unit Price''),
     (lit ''vat_rate'', lit ''VAT (%)''),
     (lit ''vat_amount'', lit ''VAT Amount''),
     (lit ''total'', lit ''Total''),
     (lit ''subtotal'', lit ''Subtotal''),
     (lit ''total_vat'', lit ''Total VAT''),
     (lit ''payment_terms'', lit ''Payment Terms''),
     (lit ''delivery_terms'', lit ''Delivery Terms''),
     (lit ''accept_checks'', lit ''Accept Checks?''),
     (lit ''services_products'', lit ''Services / Products''),
     (lit ''add'', lit ''Add''),
     (lit ''remove'', lit ''Remove''),
     (lit ''download'', lit ''Download''),
     (lit ''supplier_info'', lit ''Supplier Information (From)''),
     (lit ''customer_info'', lit ''Customer Information (To)''),
     (lit ''document_info'', lit ''Document Information''),
     (lit ''additional_info'', lit ''Additional Information'')]"

definition LANG_fr :: "(pystr \<times> pystr) list" where
  "LANG_fr = [
     (lit ''document_type_label'', lit ''Type de Document''),
     (lit ''invoice'', lit ''Facture''),
     (lit ''quote'', lit ''Devis''),
     (lit ''number'', [78, 117, 109, 233, 114, 111]),
     (lit ''date'', lit ''Date''),
     (lit ''due_date'', [68, 97, 116, 101, 32, 100, 8217, 233, 99, 104, 233, 97, 110, 99, 101]),
     (lit ''from'', lit ''De''),
     (lit ''to'', lit ''A''),
     (lit ''tax_id'', lit ''Identifiant Fiscal''),
     (lit ''mobile'', lit ''Mobile''),
     (lit ''email'', lit ''Email''),
     (lit ''details'', [68, 233, 116, 97, 105, 108, 115]),
     (lit ''description'', lit ''Description''),
     (lit ''quantity'', [81, 117, 97, 110, 116, 105, 116, 233]),
     (lit ''unit_price'', lit ''Prix Unitaire''),
     (lit ''vat_rate'', lit ''TVA (%)''),
     (lit ''vat_amount'', lit ''Montant TVA''),
     (lit ''total'', lit ''Total''),
     (lit ''subtotal'', lit ''Sous Total''),
     (lit ''total_vat'', lit ''TVA''),
     (lit ''payment_terms'', lit ''Conditions de Paiement''),
     (lit ''delivery_terms'', lit ''Conditions de Livraison''),
     (lit ''accept_checks'', [65, 99, 99, 101, 112, 116, 101, 114, 32, 108, 101, 115, 32, 99, 104, 232, 113, 117, 101, 115, 32, 63]),
     (lit ''services_products'', lit ''Services / Produits''),
     (lit ''add'', lit ''Ajouter''),
     (lit ''remove'', lit ''Supprimer''),
     (lit ''download'', [84, 233, 108, 233, 99, 104, 97, 114, 103, 101, 114]),
     (lit ''supplier_info'', lit ''Informations Fournisseur (De)''),
     (lit ''customer_info'', lit ''Informations Client (A)''),
     (lit ''document_info'', lit ''Informations du Document''),
     (lit ''additional_info'', [73, 110, 102, 111, 114, 109, 97, 116, 105, 111, 110, 115, 32, 83, 117, 112, 112, 108, 233, 109, 101, 110, 116, 97, 105, 114, 101, 115])]"

definition LANG_ar :: "(pystr \<times> pystr) list" where
  "LANG_ar = [
     (lit ''document_type_label'', [1606, 1608, 1593, 32, 1575, 1604, 1605, 1587, 1578, 1606, 1583]),
     (lit ''invoice'', [1601, 1575, 1578, 1608, 1585, 1577]),
     (lit ''quote'', [1593, 1585, 1590, 32, 1587, 1593, 1585]),
     (lit ''number'', [1575, 1604, 1585, 1602, 1605]),
     (lit ''date'', [1575, 1604, 1578, 1575, 1585, 1610, 1582]),
     (lit ''due_date'', [1578, 1575, 1585, 1610, 1582, 32, 1575, 1604, 1575, 1587, 1578, 1581, 1602, 1575, 1602]),
     (lit ''from'', [1605, 1606]),
     (lit ''to'', [1573, 1604, 1609]),
     (lit ''tax_id'', [1575, 1604, 1585, 1602, 1605, 32, 1575, 1604, 1590, 1585, 1610, 1576, 1610]),
     (lit ''mobile'', [1585, 1602, 1605, 32, 1575, 1604, 1580, 1608, 1575, 1604]),
     (lit ''email'', [1575, 1604, 1576, 1585, 1610, 1583, 32, 1575, 1604, 1573, 1604, 1603, 1578, 1585, 1608, 1606, 1610]),
     (lit ''details'', [1575, 1604, 1578, 1601, 1575, 1589, 1610, 1604]),
     (lit ''description'', [1575, 1604, 1608, 1589, 1601]),
     (lit ''quantity'', [1575, 1604, 1603, 1605, 1610, 1577]),
     (lit ''unit_price'', [1587, 1593, 1585, 32, 1575, 1604, 1608, 1581, 1583, 1577]),
     (lit ''vat_rate'', [1606, 1587, 1576, 1577, 32, 1575, 1604, 1590, 1585, 1610, 1576, 1577]),
     (lit ''vat_amount'', [1605, 1576, 1604, 1594, 32, 1575, 1604, 1590, 1585, 1610, 1576, 1577]),
     (lit ''total'', [1575, 1604, 1573, 1580, 1605, 1575, 1604, 1610]),
     (lit ''subtotal'', [1575, 1604, 1573, 1580, 1605, 1575, 1604, 1610, 32, 1575, 1604, 1601, 1585, 1593, 1610]),
     (lit ''total_vat'', [1605, 1580, 1605, 1608, 1593, 32, 1575, 1604, 1590, 1585, 1610, 1576, 1577]),
     (lit ''payment_terms'', [1588, 1585, 1608, 1591, 32, 1575, 1604, 1583, 1601, 1593]),
     (lit ''delivery_terms'', [1588, 1585, 1608, 1591, 32, 1575, 1604, 1578, 1587, 1604, 1610, 1605]),
     (lit ''accept_checks'', [1602, 1576, 1608, 1604, 32, 1575, 1604, 1588, 1610, 1603, 1575, 1578, 1567]),
     (lit ''services_products'', [1575, 1604, 1582, 1583, 1605, 1575, 1578, 32, 47, 32, 1575, 1604, 1605, 1606, 1578, 1580, 1575, 1578]),
     (lit ''add'', [1573, 1590, 1575, 1601, 1577]),
     (lit ''remove'', [1573, 1586, 1575, 1604, 1577]),
     (lit ''download'', [1578, 1581, 1605, 1610, 1604]),
     (lit ''supplier_info'', [1605, 1593, 1604, 1608, 1605, 1575, 1578, 32, 1575, 1604, 1605, 1608, 1585, 1583, 32, 40, 1605, 1606, 41]),
     (lit ''customer_info'', [1605, 1593, 1604, 1608, 1605, 1575, 1578, 32, 1575, 1604, 1593, 1605, 1610, 1604, 32, 40, 1573, 1604, 1609, 41]),
     (lit ''document_info'', [1605, 1593, 1604, 1608, 1605, 1575, 1578, 32, 1575, 1604, 1605, 1587, 1578, 1606, 1583]),
     (lit ''additional_info'', [1605, 1593, 1604, 1608, 1605, 1575, 1578, 32, 1573, 1590, 1575, 1601, 1610, 1577])]"

definition LANGUAGES :: "pystr \<rightharpoonup> lang_dict" where
  "LANGUAGES = map_of
     [(lit ''en'', map_of LANG_en), (lit ''fr'', map_of LANG_fr), (lit ''ar'', map_of LANG_ar)]"

text \<open>The options of the document-type selector: the two labels of each language.\<close>

definition doc_type_options :: "lang_dict \<Rightarrow> pystr list" where
  "doc_type_options d =
     (case d (lit ''invoice'') of
        None \<Rightarrow> []
      | Some i \<Rightarrow> (case d (lit ''quote'') of None \<Rightarrow> [] | Some q \<Rightarrow> [i, q]))"

definition DOC_TYPE_OPTIONS :: "pystr \<rightharpoonup> pystr list" where
  "DOC_TYPE_OPTIONS = map_of
     [(lit ''en'', doc_type_options (map_of LANG_en)),
      (lit ''fr'', doc_type_options (map_of LANG_fr)),
      (lit ''ar'', doc_type_options (map_of LANG_ar))]"

section \<open>Routines of the libraries\<close>

text \<open>
  The program calls routines that are not part of it. They are parameters of the model:
  \<^item> \<open>arabic_reshaper.reshape\<close> and \<open>bidi.algorithm.get_display\<close>;
  \<^item> the \<open>repr\<close> of a float (used by \<open>f"{x}%"\<close>) and the Unicode upper-casing of a code
    point outside ASCII;
  \<^item> of the PDF library: whether \<open>HexColor(val)\<close> accepts a colour string, whether
    \<open>Paragraph(text, style)\<close> accepts the markup of a text, whether \<open>Image(file)\<close> reads an
    uploaded file (each raises otherwise).
  The rendering \<open>doc.build\<close> is a parameter of the function that calls it.
\<close>

record libs =
  arabic_reshape :: "pystr \<Rightarrow> pystr"
  get_display :: "pystr \<Rightarrow> pystr"
  float_repr :: "pyfloat \<Rightarrow> pystr"
  upper_nonascii :: "nat \<Rightarrow> pystr"
  hex_color_ok :: "pystr \<Rightarrow> bool"
  paragraph_ok :: "pystr \<Rightarrow> pystr \<Rightarrow> bool"
  image_ok :: "nat list \<Rightarrow> bool"

definition reshape_if_arabic :: "libs \<Rightarrow> pystr \<Rightarrow> pystr \<Rightarrow> pystr" where
  "reshape_if_arabic L text lang =
     (if lang = lit ''ar'' \<and> strip text \<noteq> []
      then get_display L (arabic_reshape L text)
      else text)"

section \<open>The document handed to the PDF library\<close>

type_synonym uploaded_file = "nat list"

record doc_data =
  doc_type :: pystr
  supplier_name :: pystr
  supplier_address :: pystr
  supplier_tax_id :: pystr
  supplier_mobile :: pystr
  supplier_email :: pystr
  logo :: "uploaded_file option"
  customer_name :: pystr
  customer_address :: pystr
  invoice_number :: pystr
  invoice_date :: "pydate option"
  invoice_due_date :: "pydate option"
  payment_terms :: pystr
  delivery_terms :: pystr
  accept_checks :: bool

record line_item =
  description :: pystr
  quantity :: int
  unit_price :: pyfloat
  vat_rate :: pyfloat

datatype color = HexColor pystr | whitesmoke

record paragraph_style =
  style_name :: pystr
  style_parent :: pystr
  fontName :: pystr
  fontSize :: "nat option"
  textColor :: "color option"
  spaceAfter :: "nat option"

datatype cell = Text pystr | Para pystr paragraph_style | RLImage uploaded_file nat nat

type_synonym coord = "int \<times> int"

datatype tcmd =
    BACKGROUND coord coord color
  | TEXTCOLOR coord coord color
  | ALIGN coord coord pystr
  | VALIGN coord coord pystr
  | FONTNAME coord coord pystr
  | FONTSIZE coord coord nat
  | BOTTOMPADDING coord coord nat
  | GRID coord coord rat color
  | LINEABOVE coord coord rat color

datatype col_width = Half_doc_width

datatype flowable =
    Paragraph pystr paragraph_style
  | Spacer nat nat
  | Table "cell list list" "col_width list option" nat "tcmd list"

text \<open>
  What is handed to \<open>doc.build\<close>: the page set-up (A4, margins in millimetres), the styles
  added to the sheet, and the story.
\<close>

record pdf_document =
  pagesize :: pystr
  rightMargin :: nat
  leftMargin :: nat
  topMargin :: nat
  bottomMargin :: nat
  stylesheet :: "paragraph_style list"
  story :: "flowable list"

subsection \<open>Constructors that can raise\<close>

text \<open>
  A colour, a paragraph and an image are made by the PDF library, which raises on what it
  rejects. The paragraphs of the program hold the texts of the form as they were typed,
  spliced into the markup, so a text such as \<open><b>x\<close> makes the constructor raise.
\<close>

definition hex_color :: "libs \<Rightarrow> pystr \<Rightarrow> error + color" where
  "hex_color L val = (if hex_color_ok L val then Inr (HexColor val) else Inl ValueError)"

definition paragraph_flowable :: "libs \<Rightarrow> pystr \<Rightarrow> paragraph_style \<Rightarrow> error + flowable" where
  "paragraph_flowable L text style =
     (if paragraph_ok L text (fontName style) then Inr (Paragraph text style) else Inl ValueError)"

definition para_cell :: "libs \<Rightarrow> pystr \<Rightarrow> paragraph_style \<Rightarrow> error + cell" where
  "para_cell L text style =
     (if paragraph_ok L text (fontName style) then Inr (Para text style) else Inl ValueError)"

definition image_cell :: "libs \<Rightarrow> uploaded_file \<Rightarrow> error + cell" where
  "image_cell L file = (if image_ok L file then Inr (RLImage file 1 1) else Inl ImageError)"

section \<open>PDF generation\<close>

definition font_name_of :: "pystr \<Rightarrow> pystr" where
  "font_name_of lang_choice = (if lang_choice = lit ''ar'' then lit ''Amiri'' else lit ''Helvetica'')"

definition CustomTitle :: "pystr \<Rightarrow> pystr \<Rightarrow> paragraph_style" where
  "CustomTitle font_name primary_color =
     \<lparr>style_name = lit ''CustomTitle'', style_parent = lit ''Title'', fontName = font_name,
      fontSize = Some 24, textColor = Some (HexColor primary_color), spaceAfter = Some 30\<rparr>"

definition SubHeading :: "pystr \<Rightarrow> pystr \<Rightarrow> paragraph_style" where
  "SubHeading font_name primary_color =
     \<lparr>style_name = lit ''SubHeading'', style_parent = lit ''Heading2'', fontName = font_name,
      fontSize = Some 14, textColor = Some (HexColor primary_color), spaceAfter = Some 10\<rparr>"

definition NormalArabic :: "pystr \<Rightarrow> paragraph_style" where
  "NormalArabic font_name =
     \<lparr>style_name = lit ''NormalArabic'', style_parent = lit ''Normal'', fontName = font_name,
      fontSize = None, textColor = None, spaceAfter = None\<rparr>"

subsection \<open>Header\<close>

text \<open>The title as the header shows it: \<open>doc_title.upper()\<close>, with \<open>doc_title\<close> the shaped title.\<close>

definition header_title :: "libs \<Rightarrow> pystr \<Rightarrow> pystr \<Rightarrow> pystr" where
  "header_title L title lang_choice =
     upper (upper_nonascii L) (reshape_if_arabic L title lang_choice)"

definition date_time_str :: "pydatetime \<Rightarrow> doc_data \<Rightarrow> pystr" where
  "date_time_str now data =
     (case invoice_date data of Some d \<Rightarrow> strftime_dmY d | None \<Rightarrow> []) @ lit '' '' @ strftime_HM now"

definition due_date_str :: "doc_data \<Rightarrow> pystr" where
  "due_date_str data = (case invoice_due_date data of Some d \<Rightarrow> strftime_dmY d | None \<Rightarrow> [])"

definition header_html ::
  "libs \<Rightarrow> pydatetime \<Rightarrow> doc_data \<Rightarrow> lang_dict \<Rightarrow> pystr \<Rightarrow> pystr \<Rightarrow> error + pystr" where
  "header_html L now data lang_dict primary_color lang_choice =
     bind (dict_get lang_dict (lit ''number'')) (\<lambda>number.
     bind (dict_get lang_dict (lit ''date'')) (\<lambda>date.
     bind (dict_get lang_dict (lit ''due_date'')) (\<lambda>due_date.
       let number_label = reshape_if_arabic L number lang_choice;
           date_label = reshape_if_arabic L date lang_choice;
           due_date_label = reshape_if_arabic L due_date lang_choice
       in Inr (nl @ lit ''    <font color='' @ dq @ primary_color @ dq @ lit '' size='' @ dq
                 @ lit ''18'' @ dq @ lit ''><b>'' @ header_title L (doc_type data) lang_choice
                 @ lit ''</b></font><br/>'' @ nl
               @ lit ''    <font color='' @ dq @ lit ''#666666'' @ dq @ lit ''>'' @ nl
               @ lit ''    '' @ number_label @ lit '': ''
                 @ reshape_if_arabic L (invoice_number data) lang_choice @ lit ''<br/>'' @ nl
               @ lit ''    '' @ date_label @ lit '': ''
                 @ reshape_if_arabic L (date_time_str now data) lang_choice @ lit ''<br/>'' @ nl
               @ lit ''    '' @ due_date_label @ lit '': ''
                 @ reshape_if_arabic L (due_date_str data) lang_choice @ nl
               @ lit ''    </font>'' @ nl @ lit ''    ''))))"

text \<open>
  The logo cell is the uploaded image, or an empty paragraph; then the header text becomes
  a paragraph. Each of the three constructors can raise.
\<close>

definition header_part ::
  "libs \<Rightarrow> pydatetime \<Rightarrow> doc_data \<Rightarrow> lang_dict \<Rightarrow> pystr \<Rightarrow> pystr \<Rightarrow> error + flowable list" where
  "header_part L now data lang_dict primary_color lang_choice =
     (let style = NormalArabic (font_name_of lang_choice) in
      bind (header_html L now data lang_dict primary_color lang_choice) (\<lambda>html.
      bind (case logo data of Some f \<Rightarrow> image_cell L f | None \<Rightarrow> para_cell L [] style) (\<lambda>logo_cell.
      bind (para_cell L html style) (\<lambda>text_cell.
        Inr [Table [[logo_cell, text_cell]] (Some [Half_doc_width, Half_doc_width]) 0
               [ALIGN (0, 0) (0, 0) (lit ''LEFT''),
                ALIGN (- 1, - 1) (- 1, - 1) (lit ''RIGHT''),
                VALIGN (0, 0) (- 1, - 1) (lit ''TOP'')],
             Spacer 1 20]))))"

subsection \<open>Supplier and customer\<close>

definition supplier_html :: "libs \<Rightarrow> doc_data \<Rightarrow> pystr \<Rightarrow> pystr \<Rightarrow> pystr
    \<Rightarrow> pystr \<Rightarrow> pystr \<Rightarrow> pystr \<Rightarrow> pystr" where
  "supplier_html L data primary_color lang_choice from tax_id mobile email =
     (let sh = (\<lambda>t. reshape_if_arabic L t lang_choice) in
      nl @ lit ''    <font color='' @ dq @ primary_color @ dq @ lit ''><b>'' @ sh from
        @ lit '':</b></font><br/>'' @ nl
      @ lit ''    '' @ sh (supplier_name data) @ lit ''<br/>'' @ nl
      @ lit ''    '' @ sh (supplier_address data) @ lit ''<br/>'' @ nl
      @ lit ''    '' @ sh tax_id @ lit '': '' @ sh (supplier_tax_id data) @ lit ''<br/>'' @ nl
      @ lit ''    '' @ sh mobile @ lit '': '' @ sh (supplier_mobile data) @ lit ''<br/>'' @ nl
      @ lit ''    '' @ sh email @ lit '': '' @ sh (supplier_email data) @ nl
      @ lit ''    '')"

definition customer_html :: "libs \<Rightarrow> doc_data \<Rightarrow> pystr \<Rightarrow> pystr \<Rightarrow> pystr \<Rightarrow> pystr" where
  "customer_html L data primary_color lang_choice to =
     (let sh = (\<lambda>t. reshape_if_arabic L t lang_choice) in
      nl @ lit ''    <font color='' @ dq @ primary_color @ dq @ lit ''><b>'' @ sh to
        @ lit '':</b></font><br/>'' @ nl
      @ lit ''    '' @ sh (customer_name data) @ lit ''<br/>'' @ nl
      @ lit ''    '' @ sh (customer_address data) @ nl
      @ lit ''    '')"

definition parties_part ::
  "libs \<Rightarrow> doc_data \<Rightarrow> lang_dict \<Rightarrow> pystr \<Rightarrow> pystr \<Rightarrow> error + flowable list" where
  "parties_part L data lang_dict primary_color lang_choice =
     (let style = NormalArabic (font_name_of lang_choice) in
      bind (dict_get lang_dict (lit ''from'')) (\<lambda>from.
      bind (dict_get lang_dict (lit ''to'')) (\<lambda>to.
      bind (dict_get lang_dict (lit ''tax_id'')) (\<lambda>tax_id.
      bind (dict_get lang_dict (lit ''mobile'')) (\<lambda>mobile.
      bind (dict_get lang_dict (lit ''email'')) (\<lambda>email.
      bind (para_cell L (supplier_html L data primary_color lang_choice from tax_id mobile email)
              style) (\<lambda>supplier.
      bind (para_cell L (customer_html L data primary_color lang_choice to) style) (\<lambda>customer.
        Inr [Table [[supplier, customer]] (Some [Half_doc_width, Half_doc_width]) 0
               [ALIGN (0, 0) (- 1, - 1) (lit ''LEFT''),
                VALIGN (0, 0) (- 1, - 1) (lit ''TOP''),
                BOTTOMPADDING (0, 0) (- 1, - 1) 20],
             Spacer 1 20]))))))))"

subsection \<open>Item table and totals\<close>

text \<open>The three figures of one line, as the loop body computes them.\<close>

definition calc_line :: "line_item \<Rightarrow> error + pyfloat \<times> pyfloat \<times> pyfloat" where
  "calc_line item =
     bind (int_mul_float (quantity item) (unit_price item)) (\<lambda>subtotal.
     bind (float_div_int (vat_rate item) 100) (\<lambda>rate.
       let vat_amount = float_mul subtotal rate;
           line_total = float_add subtotal vat_amount
       in Inr (subtotal, vat_amount, line_total)))"

definition row_data :: "libs \<Rightarrow> pystr \<Rightarrow> line_item \<Rightarrow> pyfloat \<Rightarrow> pyfloat \<Rightarrow> pystr list" where
  "row_data L lang_choice item vat_amount line_total =
     [reshape_if_arabic L (description item) lang_choice,
      str_int (quantity item),
      format_2f (unit_price item),
      float_repr L (vat_rate item) @ lit ''%'',
      format_2f vat_amount,
      format_2f line_total]"

text \<open>
  The loop over the items, with its three variables: the two running totals and the
  rows appended so far.
\<close>

fun items_loop ::
  "libs \<Rightarrow> pystr \<Rightarrow> line_item list \<Rightarrow> pyfloat \<times> pyfloat \<times> pystr list list
     \<Rightarrow> error + pyfloat \<times> pyfloat \<times> pystr list list" where
  "items_loop L lang_choice [] acc = Inr acc"
| "items_loop L lang_choice (item # rest) (total_without_vat, total_vat, items_data) =
     bind (calc_line item) (\<lambda>(subtotal, vat_amount, line_total).
       items_loop L lang_choice rest
         (float_add total_without_vat subtotal,
          float_add total_vat vat_amount,
          items_data @ [row_data L lang_choice item vat_amount line_total]))"

definition items_data ::
  "libs \<Rightarrow> line_item list \<Rightarrow> lang_dict \<Rightarrow> pystr \<Rightarrow> error + pystr list list" where
  "items_data L items lang_dict lang_choice =
     (let sh = (\<lambda>t. reshape_if_arabic L t lang_choice) in
      bind (dict_get lang_dict (lit ''description'')) (\<lambda>description.
      bind (dict_get lang_dict (lit ''quantity'')) (\<lambda>quantity.
      bind (dict_get lang_dict (lit ''unit_price'')) (\<lambda>unit_price.
      bind (dict_get lang_dict (lit ''vat_rate'')) (\<lambda>vat_rate.
      bind (dict_get lang_dict (lit ''vat_amount'')) (\<lambda>vat_amount.
      bind (dict_get lang_dict (lit ''total'')) (\<lambda>total.
      bind (items_loop L lang_choice items
              (Finite False 0, Finite False 0,
               [[sh description, sh quantity, sh unit_price, sh vat_rate, sh vat_amount, sh total]]))
        (\<lambda>(total_without_vat, total_vat, rows).
      let grand_total = float_add total_without_vat total_vat in
      bind (dict_get lang_dict (lit ''subtotal'')) (\<lambda>subtotal.
      bind (dict_get lang_dict (lit ''total_vat'')) (\<lambda>total_vat_label.
      bind (dict_get lang_dict (lit ''total'')) (\<lambda>total_label.
        Inr (rows @
          [[[], [], [], [], sh subtotal @ lit '':'', format_2f total_without_vat],
           [[], [], [], [], sh total_vat_label @ lit '':'', format_2f total_vat],
           [[], [], [], [], sh total_label @ lit '':'', format_2f grand_total]]))))))))))))"

definition items_table_style :: "pystr \<Rightarrow> pystr \<Rightarrow> tcmd list" where
  "items_table_style primary_color font_name =
     [BACKGROUND (0, 0) (- 1, 0) (HexColor primary_color),
      TEXTCOLOR (0, 0) (- 1, 0) whitesmoke,
      ALIGN (0, 0) (- 1, 0) (lit ''CENTER''),
      FONTNAME (0, 0) (- 1, 0) font_name,
      FONTSIZE (0, 0) (- 1, 0) 12,
      BOTTOMPADDING (0, 0) (- 1, 0) 12,
      ALIGN (1, 1) (- 1, - 1) (lit ''RIGHT''),
      GRID (0, 0) (- 1, - 2) (1 / 2) (HexColor (lit ''#CCCCCC'')),
      FONTNAME (- 2, - 3) (- 1, - 1) font_name,
      LINEABOVE (- 2, - 3) (- 1, - 3) 1 (HexColor primary_color)]"

text \<open>
  The heading paragraph is made before the rows are computed; the two colours of the
  style list are made when the list is, after the rows.
\<close>

definition items_part ::
  "libs \<Rightarrow> doc_data \<Rightarrow> line_item list \<Rightarrow> lang_dict \<Rightarrow> pystr \<Rightarrow> pystr \<Rightarrow> error + flowable list" where
  "items_part L data items lang_dict primary_color lang_choice =
     bind (dict_get lang_dict (lit ''details'')) (\<lambda>details.
     bind (paragraph_flowable L (reshape_if_arabic L details lang_choice)
             (SubHeading (font_name_of lang_choice) primary_color)) (\<lambda>heading.
     bind (items_data L items lang_dict lang_choice) (\<lambda>rows.
     bind (hex_color L primary_color) (\<lambda>accent.
     bind (hex_color L (lit ''#CCCCCC'')) (\<lambda>grey.
       Inr [heading,
            Table (map (map Text) rows) None 1
              (items_table_style primary_color (font_name_of lang_choice))])))))"

subsection \<open>Terms\<close>

definition payment_terms_block ::
  "libs \<Rightarrow> doc_data \<Rightarrow> lang_dict \<Rightarrow> pystr \<Rightarrow> pystr \<Rightarrow> error + flowable list" where
  "payment_terms_block L data lang_dict primary_color lang_choice =
     (if payment_terms data \<noteq> [] then
        bind (dict_get lang_dict (lit ''payment_terms'')) (\<lambda>label.
        bind (paragraph_flowable L (lit ''<b>'' @ reshape_if_arabic L label lang_choice @ lit ''</b>:'')
                (SubHeading (font_name_of lang_choice) primary_color)) (\<lambda>heading.
        bind (paragraph_flowable L (reshape_if_arabic L (payment_terms data) lang_choice)
                (NormalArabic (font_name_of lang_choice))) (\<lambda>body.
          Inr [Spacer 1 20, heading, body])))
      else Inr [])"

definition delivery_terms_block ::
  "libs \<Rightarrow> doc_data \<Rightarrow> lang_dict \<Rightarrow> pystr \<Rightarrow> pystr \<Rightarrow> error + flowable list" where
  "delivery_terms_block L data lang_dict primary_color lang_choice =
     (if delivery_terms data \<noteq> [] then
        bind (dict_get lang_dict (lit ''delivery_terms'')) (\<lambda>label.
        bind (paragraph_flowable L (lit ''<b>'' @ reshape_if_arabic L label lang_choice @ lit ''</b>:'')
                (SubHeading (font_name_of lang_choice) primary_color)) (\<lambda>heading.
        bind (paragraph_flowable L (reshape_if_arabic L (delivery_terms data) lang_choice)
                (NormalArabic (font_name_of lang_choice))) (\<lambda>body.
          Inr [Spacer 1 10, heading, body])))
      else Inr [])"

definition accept_checks_block ::
  "libs \<Rightarrow> doc_data \<Rightarrow> lang_dict \<Rightarrow> pystr \<Rightarrow> error + flowable list" where
  "accept_checks_block L data lang_dict lang_choice =
     (if accept_checks data then
        bind (dict_get lang_dict (lit ''accept_checks'')) (\<lambda>label.
        bind (paragraph_flowable L (lit ''<b>'' @ reshape_if_arabic L label lang_choice @ lit ''</b> ''
                             @ reshape_if_arabic L (lit ''Yes'') lang_choice)
                (NormalArabic (font_name_of lang_choice))) (\<lambda>line.
          Inr [Spacer 1 10, line]))
      else Inr [])"

subsection \<open>The story\<close>

text \<open>
  The part of \<open>create_modern_invoice_pdf\<close> before \<open>doc.build\<close>. The styles come first, and
  with them the first \<open>HexColor(primary_color)\<close>; \<open>now\<close> is the value of \<open>datetime.now()\<close>
  read while the header is built; the other arguments are those of the source.
\<close>

definition invoice_story ::
  "libs \<Rightarrow> pydatetime \<Rightarrow> doc_data \<Rightarrow> line_item list \<Rightarrow> lang_dict \<Rightarrow> pystr \<Rightarrow> pystr
     \<Rightarrow> error + pdf_document" where
  "invoice_story L now data items lang_dict primary_color lang_choice =
     (let font_name = font_name_of lang_choice in
      bind (hex_color L primary_color) (\<lambda>accent.
      bind (header_part L now data lang_dict primary_color lang_choice) (\<lambda>header.
      bind (parties_part L data lang_dict primary_color lang_choice) (\<lambda>parties.
      bind (items_part L data items lang_dict primary_color lang_choice) (\<lambda>table.
      bind (payment_terms_block L data lang_dict primary_color lang_choice) (\<lambda>pt.
      bind (delivery_terms_block L data lang_dict primary_color lang_choice) (\<lambda>dt.
      bind (accept_checks_block L data lang_dict lang_choice) (\<lambda>ac.
        Inr \<lparr>pagesize = lit ''A4'', rightMargin = 15, leftMargin = 15, topMargin = 15,
             bottomMargin = 15,
             stylesheet = [CustomTitle font_name primary_color,
                           SubHeading font_name primary_color,
                           NormalArabic font_name],
             story = header @ parties @ table @ pt @ dt @ ac\<rparr>))))))))"

subsection \<open>The whole function\<close>

text \<open>
  \<open>doc.build(story)\<close> lays the story out and writes the bytes that the function returns.
  It can raise, and what it writes carries the time at which it runs, to the second:
  \<open>build\<close> is the rendering, \<open>built\<close> the reading of the clock it takes.
\<close>

type_synonym renderer = "pydatetime \<Rightarrow> pdf_document \<Rightarrow> error + nat list"

definition create_modern_invoice_pdf ::
  "libs \<Rightarrow> renderer \<Rightarrow> pydatetime \<Rightarrow> pydatetime \<Rightarrow> doc_data \<Rightarrow> line_item list \<Rightarrow> lang_dict
     \<Rightarrow> pystr \<Rightarrow> pystr \<Rightarrow> error + nat list" where
  "create_modern_invoice_pdf L build now built data items lang_dict primary_color lang_choice =
     bind (invoice_story L now data items lang_dict primary_color lang_choice) (\<lambda>doc.
       build built doc)"

section \<open>The download button\<close>

text \<open>
  The last section of \<open>main\<close>: the calls it makes on the page, given whether the button
  was pressed. With no item it reports an error and does not generate the document.
\<close>

datatype st_call =
    st_button pystr
  | st_error pystr
  | st_download_button pystr "nat list" pystr pystr

definition main_download ::
  "libs \<Rightarrow> renderer \<Rightarrow> pydatetime \<Rightarrow> pydatetime \<Rightarrow> bool \<Rightarrow> doc_data \<Rightarrow> line_item list
     \<Rightarrow> lang_dict \<Rightarrow> pystr \<Rightarrow> pystr \<Rightarrow> error + st_call list" where
  "main_download L build now built pressed data items lang_dict primary_color lang_choice =
     bind (dict_get lang_dict (lit ''download'')) (\<lambda>download.
       if pressed then
         (if length items = 0 then
            Inr [st_button download,
                 st_error
                   (if lang_choice = lit ''en'' then lit ''Please add at least one item.''
                    else if lang_choice = lit ''fr'' then lit ''Veuillez ajouter au moins un article.''
                    else [1575, 1604, 1585, 1580, 1575, 1569, 32, 1573, 1590, 1575, 1601, 1577, 32,
                          1593, 1606, 1589, 1585, 32, 1608, 1575, 1581, 1583, 32, 1593, 1604, 1609,
                          32, 1575, 1604, 1571, 1602, 1604, 46])]
          else
            bind (create_modern_invoice_pdf L build now built data items lang_dict primary_color
                    lang_choice)
              (\<lambda>pdf_bytes.
                 let file_name = doc_type data @ lit ''_'' @ invoice_number data @ lit ''.pdf''
                 in Inr [st_button download,
                         st_download_button download pdf_bytes file_name (lit ''application/pdf'')]))
       else Inr [st_button download])"

section \<open>An instance of the library routines\<close>

text \<open>
  To run the model on sample inputs the parameters need values. \<open>ascii_libs\<close> is a
  cautious stand-in, meant for the samples below and for nothing else:
  \<^item> shaping returns its argument, as both shaping routines do on text that holds ASCII
    only (there is no Arabic letter to join and no right-to-left run to reorder); on a
    text in Arabic the libraries return other code points, so a sample in Arabic shows
    the structure of the document, not its letters;
  \<^item> \<open>repr\<close> of a whole float below \<open>10 ^ 16\<close> is its digits followed by \<open>.0\<close>; on any other
    float the stand-in gives the empty string, and nothing is stated about that case;
  \<^item> a colour is accepted when it is \<open>#\<close> followed by six hexadecimal digits, the form
    that the colour picker produces;
  \<^item> a paragraph is accepted when it holds no \<open>&\<close> and its tags are the tags that the
    program writes itself (\<open>b\<close>, \<open>font\<close>, \<open>br/\<close>), each opened tag closed in order; a text
    such as \<open><b>x\<close> is rejected;
  \<^item> no image is accepted (no sample has a logo).
  The PDF library accepts more than the stand-in does.
\<close>

definition whole_float_repr :: "pyfloat \<Rightarrow> pystr" where
  "whole_float_repr x =
     (case x of
        Finite s m \<Rightarrow>
          (if of_int \<lfloor>m\<rfloor> = m \<and> m < 10 ^ 16 then sign_str s @ digits (nat \<lfloor>m\<rfloor>) @ lit ''.0'' else [])
      | Infinity s \<Rightarrow> sign_str s @ lit ''inf''
      | NaN \<Rightarrow> lit ''nan'')"

definition is_hex_digit :: "nat \<Rightarrow> bool" where
  "is_hex_digit c \<longleftrightarrow> (48 \<le> c \<and> c \<le> 57) \<or> (65 \<le> c \<and> c \<le> 70) \<or> (97 \<le> c \<and> c \<le> 102)"

definition picker_color :: "pystr \<Rightarrow> bool" where
  "picker_color val =
     (case val of [] \<Rightarrow> False | c # ds \<Rightarrow> c = 35 \<and> length ds = 6 \<and> list_all is_hex_digit ds)"

text \<open>The stack of open tags after one more tag, or \<open>None\<close> when the tag is not accepted.\<close>

definition tag_step :: "pystr list \<Rightarrow> pystr \<Rightarrow> pystr list option" where
  "tag_step open_tags tag =
     (if tag = lit ''br/'' then Some open_tags
      else if tag = lit ''b'' then Some (lit ''b'' # open_tags)
      else if take 5 tag = lit ''font '' then Some (lit ''font'' # open_tags)
      else if tag = lit ''/b'' then
        (case open_tags of [] \<Rightarrow> None | t # ts \<Rightarrow> if t = lit ''b'' then Some ts else None)
      else if tag = lit ''/font'' then
        (case open_tags of [] \<Rightarrow> None | t # ts \<Rightarrow> if t = lit ''font'' then Some ts else None)
      else None)"

function markup_scan :: "pystr list \<Rightarrow> pystr \<Rightarrow> bool" where
  "markup_scan open_tags [] = (open_tags = [])"
| "markup_scan open_tags (c # cs) =
     (if c = 60 then
        (if 62 \<in> set cs then
           (case tag_step open_tags (takeWhile (\<lambda>x. x \<noteq> 62) cs) of
              None \<Rightarrow> False
            | Some ts \<Rightarrow> markup_scan ts (tl (dropWhile (\<lambda>x. x \<noteq> 62) cs)))
         else False)
      else if c = 62 \<or> c = 38 then False
      else markup_scan open_tags cs)"
  by pat_completeness auto
termination
  by (relation "measure (\<lambda>(ts, text). length text)")
    (auto simp: less_Suc_eq_le intro: le_trans [OF diff_le_self length_dropWhile_le])

definition ascii_libs :: libs where
  "ascii_libs =
     \<lparr>arabic_reshape = (\<lambda>s. s), get_display = (\<lambda>s. s), float_repr = whole_float_repr,
      upper_nonascii = (\<lambda>c. [c]), hex_color_ok = picker_color,
      paragraph_ok = (\<lambda>text font. markup_scan [] text), image_ok = (\<lambda>file. False)\<rparr>"

section \<open>Notions used to state the properties\<close>

subsection \<open>Running totals\<close>

text \<open>The value of a variable that starts at \<open>0.0\<close> and is increased by each element in turn.\<close>

definition sum_floats :: "pyfloat list \<Rightarrow> pyfloat" where
  "sum_floats xs = foldl float_add (Finite False 0) xs"

subsection \<open>Reading a displayed amount\<close>

definition is_digit :: "nat \<Rightarrow> bool" where
  "is_digit c \<longleftrightarrow> 48 \<le> c \<and> c \<le> 57"

definition nat_of_digits :: "pystr \<Rightarrow> nat" where
  "nat_of_digits ds = foldl (\<lambda>a d. 10 * a + (d - 48)) 0 ds"

text \<open>
  Rounding half away from zero, and the two-digit format that would use it: the rounding
  rule of the specification, to compare with \<open>format_2f\<close>.
\<close>

definition round_half_away :: "rat \<Rightarrow> int" where
  "round_half_away x = (if 0 \<le> x then \<lfloor>x + 1 / 2\<rfloor> else - \<lfloor>- x + 1 / 2\<rfloor>)"

definition spec_format_2f :: "pyfloat \<Rightarrow> pystr" where
  "spec_format_2f x =
     (case x of
        NaN \<Rightarrow> lit ''nan''
      | Infinity s \<Rightarrow> sign_str s @ lit ''inf''
      | Finite s m \<Rightarrow>
          (let c = nat (round_half_away (m * 100))
           in sign_str s @ digits (c div 100) @ [46, 48 + c mod 100 div 10, 48 + c mod 10]))"

subsection \<open>Exact figures\<close>

text \<open>
  The rational that a finite float denotes, and the figures of a line as the formulas
  \<open>quantity \<times> unit price\<close>, \<open>subtotal \<times> rate / 100\<close> and \<open>subtotal + vat_amount\<close> give them
  in exact arithmetic: the reading of the specification, to compare with \<open>calc_line\<close>.
\<close>

definition float_value :: "pyfloat \<Rightarrow> rat" where
  "float_value x = (case x of Finite s m \<Rightarrow> signed s m | Infinity s \<Rightarrow> 0 | NaN \<Rightarrow> 0)"

definition spec_line :: "line_item \<Rightarrow> rat \<times> rat \<times> rat" where
  "spec_line item =
     (let subtotal = of_int (quantity item) * float_value (unit_price item);
          vat_amount = subtotal * float_value (vat_rate item) / 100
      in (subtotal, vat_amount, subtotal + vat_amount))"

subsection \<open>Characters without case\<close>

text \<open>A code point that \<open>str.upper()\<close> leaves as it is.\<close>

definition uncased :: "(nat \<Rightarrow> pystr) \<Rightarrow> nat \<Rightarrow> bool" where
  "uncased u c = (if c < 128 then ascii_upper c = c else u c = [c])"

subsection \<open>Label keys\<close>

text \<open>The languages offered by the language selector of \<open>main\<close>.\<close>

definition supported_languages :: "pystr list" where
  "supported_languages = [lit ''en'', lit ''fr'', lit ''ar'']"

text \<open>The keys that \<open>create_modern_invoice_pdf\<close> reads from its dictionary.\<close>

definition composer_keys :: "pystr list" where
  "composer_keys =
     [lit ''number'', lit ''date'', lit ''due_date'', lit ''from'', lit ''to'', lit ''tax_id'',
      lit ''mobile'', lit ''email'', lit ''details'', lit ''description'', lit ''quantity'',
      lit ''unit_price'', lit ''vat_rate'', lit ''vat_amount'', lit ''total'', lit ''subtotal'',
      lit ''total_vat'', lit ''payment_terms'', lit ''delivery_terms'', lit ''accept_checks'']"

definition has_keys :: "lang_dict \<Rightarrow> pystr list \<Rightarrow> bool" where
  "has_keys d ks = list_all (\<lambda>k. d k \<noteq> None) ks"

text \<open>The closed label set as the specification enumerates it.\<close>

definition spec_label_keys :: "pystr list" where
  "spec_label_keys =
     [lit ''document_type'', lit ''number'', lit ''date'', lit ''due_date'', lit ''from'',
      lit ''to'', lit ''tax_id'', lit ''mobile'', lit ''email'', lit ''details'',
      lit ''description'', lit ''quantity'', lit ''unit_price'', lit ''vat_rate'',
      lit ''vat_amount'', lit ''total'', lit ''subtotal'', lit ''total_vat'',
      lit ''payment_terms'', lit ''delivery_terms'', lit ''accept_checks'',
      lit ''services_products'']"

text \<open>The same set with the key under which the dictionaries hold the document-type label.\<close>

definition code_label_keys :: "pystr list" where
  "code_label_keys = lit ''document_type_label'' # tl spec_label_keys"

definition has_label :: "lang_dict \<Rightarrow> pystr \<Rightarrow> bool" where
  "has_label d k = (case d k of None \<Rightarrow> False | Some v \<Rightarrow> v \<noteq> [])"

definition label_complete :: "pystr list \<Rightarrow> bool" where
  "label_complete keys =
     list_all (\<lambda>lang. case LANGUAGES lang of
                         None \<Rightarrow> False
                       | Some d \<Rightarrow> list_all (has_label d) keys)
       supported_languages"

subsection \<open>Rows of a table style command\<close>

text \<open>
  The PDF library counts a negative row or column index of a style command from the end
  of the table; a command applies to the rows from its first to its second cell.
\<close>

definition resolve_index :: "int \<Rightarrow> int \<Rightarrow> int" where
  "resolve_index n i = (if i < 0 then i + n else i)"

definition row_span :: "int \<Rightarrow> coord \<Rightarrow> coord \<Rightarrow> int set" where
  "row_span nrows a b = {resolve_index nrows (snd a) .. resolve_index nrows (snd b)}"

fun grid_span :: "int \<Rightarrow> tcmd \<Rightarrow> int set" where
  "grid_span n (GRID a b w c) = row_span n a b"
| "grid_span n cmd = {}"

fun background_span :: "int \<Rightarrow> color \<Rightarrow> tcmd \<Rightarrow> int set" where
  "background_span n col (BACKGROUND a b c) = (if c = col then row_span n a b else {})"
| "background_span n col cmd = {}"

fun textcolor_span :: "int \<Rightarrow> color \<Rightarrow> tcmd \<Rightarrow> int set" where
  "textcolor_span n col (TEXTCOLOR a b c) = (if c = col then row_span n a b else {})"
| "textcolor_span n col cmd = {}"

fun lineabove_span :: "int \<Rightarrow> color \<Rightarrow> tcmd \<Rightarrow> int set" where
  "lineabove_span n col (LINEABOVE a b w c) = (if c = col then row_span n a b else {})"
| "lineabove_span n col cmd = {}"

definition rows_of :: "(tcmd \<Rightarrow> int set) \<Rightarrow> tcmd list \<Rightarrow> int set" where
  "rows_of f cmds = \<Union> (set (map f cmds))"

subsection \<open>Bounds on a line item\<close>

text \<open>
  The bounds the specification puts on a line item: a quantity of at least one, a unit
  price and a VAT rate that are not negative.
\<close>

definition float_nonneg :: "pyfloat \<Rightarrow> bool" where
  "float_nonneg x = (case x of Finite s m \<Rightarrow> \<not> s \<or> m = 0 | Infinity s \<Rightarrow> \<not> s | NaN \<Rightarrow> False)"

definition spec_item_bounds :: "line_item \<Rightarrow> bool" where
  "spec_item_bounds item \<longleftrightarrow>
     1 \<le> quantity item \<and> float_nonneg (unit_price item) \<and> float_nonneg (vat_rate item)"

subsection \<open>Sample inputs\<close>

text \<open>A document as the form of \<open>main\<close> submits it, with the supplier defaults of the source.\<close>

definition sample_data :: doc_data where
  "sample_data =
     \<lparr>doc_type = lit ''Invoice'',
      supplier_name = lit ''Neuratech Solutions'',
      supplier_address = lit ''30 rue 6667'',
      supplier_tax_id = lit ''122344'',
      supplier_mobile = [],
      supplier_email = [],
      logo = None,
      customer_name = lit ''Client'',
      customer_address = lit ''Tunis'',
      invoice_number = lit ''4f9a1c2e'',
      invoice_date = Some \<lparr>year = 2025, month = 3, day = 7\<rparr>,
      invoice_due_date = None,
      payment_terms = [],
      delivery_terms = [],
      accept_checks = True\<rparr>"

text \<open>The same document with the title that the selector offers in French, and in Arabic.\<close>

definition sample_data_fr :: doc_data where
  "sample_data_fr = sample_data\<lparr>doc_type := lit ''Facture''\<rparr>"

definition sample_data_ar :: doc_data where
  "sample_data_ar = sample_data\<lparr>doc_type := [1601, 1575, 1578, 1608, 1585, 1577]\<rparr>"

definition sample_item :: "pystr \<Rightarrow> line_item" where
  "sample_item d = \<lparr>description = d, quantity = 3, unit_price = Finite False 10, vat_rate = Finite False 19\<rparr>"

text \<open>A line with a negative quantity, a negative price and a negative rate.\<close>

definition negative_item :: line_item where
  "negative_item = \<lparr>description = lit ''Refund'', quantity = - 2, unit_price = Finite True 5,
                     vat_rate = Finite True 10\<rparr>"

text \<open>A line whose unit price, 0.125, lies halfway between two amounts in cents.\<close>

definition eighth_item :: line_item where
  "eighth_item = \<lparr>description = lit ''Screw'', quantity = 1, unit_price = Finite False (1 / 8),
                   vat_rate = Finite False 0\<rparr>"

text \<open>One unit at 2.50 with 19 percent VAT: in exact arithmetic the VAT is 0.475.\<close>

definition two_fifty_item :: line_item where
  "two_fifty_item = \<lparr>description = lit ''Pen'', quantity = 1, unit_price = Finite False (5 / 2),
                      vat_rate = Finite False 19\<rparr>"

text \<open>One unit at 0.125 with 100 percent VAT: price and VAT are 0.125 each, the total 0.25.\<close>

definition taxed_eighth_item :: line_item where
  "taxed_eighth_item = \<lparr>description = lit ''Nut'', quantity = 1, unit_price = Finite False (1 / 8),
                         vat_rate = Finite False 100\<rparr>"

definition clock :: "nat \<Rightarrow> nat \<Rightarrow> nat \<Rightarrow> pydatetime" where
  "clock h m s = \<lparr>year = 2025, month = 3, day = 7, hour = h, minute = m, second = s\<rparr>"

section \<open>Properties\<close>

subsection \<open>Auxiliary facts\<close>

lemma bind_Inr [simp]: "bind (Inr v) f = f v"
  by (simp add: bind_def)

lemma bind_Inl [simp]: "bind (Inl e) f = Inl e"
  by (simp add: bind_def)

lemma bind_eq_Inr: "bind r f = Inr y \<longleftrightarrow> (\<exists>v. r = Inr v \<and> f v = Inr y)"
  by (cases r) simp_all

lemma dict_get_eq_Inr: "dict_get d k = Inr v \<longleftrightarrow> d k = Some v"
  by (simp add: dict_get_def split: option.splits)

lemma strip_blank: "\<forall>c \<in> set text. py_isspace c \<Longrightarrow> strip text = []"
  by (auto simp: strip_def dest: set_dropWhileD)

subsection \<open>Evaluating the float model on numerals\<close>

lemma bit_length_0: "bit_length 0 = 0"
  by (simp add: bit_length.simps)

lemma bit_length_Suc_0: "bit_length (Suc 0) = Suc 0"
  by (simp add: bit_length.simps [of "Suc 0"] bit_length_0)

lemma bit_length_1: "bit_length 1 = Suc 0"
  using bit_length_Suc_0 by simp

lemma bit_length_numeral: "bit_length (numeral k) = Suc (bit_length (numeral k div 2))"
  by (subst bit_length.simps) simp

lemma digits_0: "digits 0 = [48]"
  by (simp add: digits.simps)

lemma digits_Suc_0: "digits (Suc 0) = [49]"
  by (simp add: digits.simps)

lemma digits_1: "digits 1 = [49]"
  by (simp add: digits.simps)

lemma digits_numeral:
  "digits (numeral k) =
     (if (numeral k :: nat) < 10 then [48 + numeral k]
      else digits (numeral k div 10) @ [48 + numeral k mod 10])"
  by (subst digits.simps) simp

lemma floor_rat_divide_numeral: "\<lfloor>numeral a / numeral b :: rat\<rfloor> = numeral a div numeral b"
  by (metis floor_divide_of_int_eq of_int_numeral)

lemma floor_rat_one_divide_numeral: "\<lfloor>1 / numeral b :: rat\<rfloor> = 1 div numeral b"
  by (metis floor_divide_of_int_eq of_int_1 of_int_numeral)

lemma ceiling_rat_divide_numeral:
  "\<lceil>numeral a / numeral b :: rat\<rceil> = - (- numeral a div numeral b)"
  using ceiling_divide_eq_div [of "numeral a" "numeral b"] by simp

lemmas float_eval =
  bit_length_0 bit_length_1 bit_length_Suc_0 bit_length_numeral
  digits_0 digits_1 digits_Suc_0 digits_numeral
  floor_rat_divide_numeral floor_rat_one_divide_numeral ceiling_rat_divide_numeral
  pow2_def floor_log2_def round_half_even_def round_binary64_def float_round_def
  float_of_int_def int_mul_float_def float_div_int_def float_truediv_def
  format_2f_def sign_str_def signed_def Let_def lit_def sum_floats_def

subsection \<open>Shaping\<close>

text \<open>
  C3. For every input string, shaping for a language other than Arabic returns the input
  unchanged; and for every language, Arabic included, an empty input or one made of
  whitespace only is returned unchanged.
\<close>

theorem reshape_if_arabic_unchanged:
  assumes "lang \<noteq> lit ''ar'' \<or> (\<forall>c \<in> set text. py_isspace c)"
  shows "reshape_if_arabic L text lang = text"
  using assms by (auto simp: reshape_if_arabic_def strip_blank)

theorem reshape_if_arabic_unchanged_witness:
  "reshape_if_arabic
     (ascii_libs\<lparr>arabic_reshape := rev, get_display := (\<lambda>s. s @ s)\<rparr>) (lit ''Total'') (lit ''fr'') = lit ''Total''
   \<and> reshape_if_arabic
     (ascii_libs\<lparr>arabic_reshape := rev, get_display := (\<lambda>s. s @ s)\<rparr>) [32, 9, 160] (lit ''ar'') = [32, 9, 160]
   \<and> reshape_if_arabic
     (ascii_libs\<lparr>arabic_reshape := rev, get_display := (\<lambda>s. s @ s)\<rparr>) [] (lit ''ar'') = []"
proof -
  have a: "lit ''fr'' \<noteq> lit ''ar'' \<or> (\<forall>c \<in> set (lit ''Total''). py_isspace c)"
    by (simp add: lit_def)
  have b: "lit ''ar'' \<noteq> lit ''ar'' \<or> (\<forall>c \<in> set [32, 9, 160]. py_isspace c)"
    by (simp add: py_isspace_def)
  have c: "lit ''ar'' \<noteq> lit ''ar'' \<or> (\<forall>c \<in> set []. py_isspace c)"
    by simp
  show ?thesis
    using reshape_if_arabic_unchanged [OF a] reshape_if_arabic_unchanged [OF b]
      reshape_if_arabic_unchanged [OF c] by blast
qed

subsection \<open>The item loop\<close>

lemma calc_line_eq_Inr:
  "calc_line item = Inr (s, v, t) \<longleftrightarrow>
     int_mul_float (quantity item) (unit_price item) = Inr s
     \<and> (\<exists>r. float_div_int (vat_rate item) 100 = Inr r \<and> v = float_mul s r)
     \<and> t = float_add s v"
  by (auto simp: calc_line_def bind_eq_Inr Let_def)

lemma items_loop_Inr:
  "items_loop L lang items (tw, tv, rows) = Inr (tw', tv', rows') \<Longrightarrow>
     \<exists>lines. map calc_line items = map Inr lines
       \<and> tw' = foldl float_add tw (map fst lines)
       \<and> tv' = foldl float_add tv (map (\<lambda>l. fst (snd l)) lines)
       \<and> rows' = rows @ map (\<lambda>(item, l). row_data L lang item (fst (snd l)) (snd (snd l))) (zip items lines)"
proof (induction items arbitrary: tw tv rows)
  case Nil
  then show ?case by simp
next
  case (Cons item rest)
  from Cons.prems obtain s v t where
    line: "calc_line item = Inr (s, v, t)" and
    rec: "items_loop L lang rest (float_add tw s, float_add tv v, rows @ [row_data L lang item v t])
            = Inr (tw', tv', rows')"
    by (auto simp: bind_eq_Inr)
  from Cons.IH [OF rec] obtain lines where
    l: "map calc_line rest = map Inr lines"
      "tw' = foldl float_add (float_add tw s) (map fst lines)"
      "tv' = foldl float_add (float_add tv v) (map (\<lambda>l. fst (snd l)) lines)"
      "rows' = (rows @ [row_data L lang item v t])
          @ map (\<lambda>(item, l). row_data L lang item (fst (snd l)) (snd (snd l))) (zip rest lines)"
    by blast
  show ?case
    by (rule exI [of _ "(s, v, t) # lines"]) (simp add: line l)
qed

lemma items_loop_total:
  "map calc_line items = map Inr lines \<Longrightarrow>
     items_loop L lang items (tw, tv, rows) =
       Inr (foldl float_add tw (map fst lines), foldl float_add tv (map (\<lambda>l. fst (snd l)) lines),
            rows @ map (\<lambda>(item, l). row_data L lang item (fst (snd l)) (snd (snd l))) (zip items lines))"
proof (induction items arbitrary: tw tv rows lines)
  case Nil
  then show ?case by simp
next
  case (Cons item rest)
  then obtain l ls where lines: "lines = l # ls" and h: "calc_line item = Inr l" and
     r: "map calc_line rest = map Inr ls"
    by (cases lines) auto
  obtain s v t where lt: "l = (s, v, t)" by (cases l)
  show ?case
    by (simp add: lines h lt Cons.IH [OF r])
qed

lemma items_data_Inr:
  assumes "items_data L items lang_dict lang = Inr rows"
  shows "\<exists>lines hdr a b c. map calc_line items = map Inr lines
     \<and> rows = hdr # map (\<lambda>(item, l). row_data L lang item (fst (snd l)) (snd (snd l))) (zip items lines) @
         [[[], [], [], [], a, format_2f (sum_floats (map fst lines))],
          [[], [], [], [], b, format_2f (sum_floats (map (\<lambda>l. fst (snd l)) lines))],
          [[], [], [], [], c, format_2f (float_add (sum_floats (map fst lines))
                                         (sum_floats (map (\<lambda>l. fst (snd l)) lines)))]]"
proof -
  from assms obtain hdr tw tv rs a b c where
    loop: "items_loop L lang items (Finite False 0, Finite False 0, [hdr]) = Inr (tw, tv, rs)" and
    rows: "rows = rs @ [[[], [], [], [], a, format_2f tw], [[], [], [], [], b, format_2f tv],
                        [[], [], [], [], c, format_2f (float_add tw tv)]]"
    by (auto simp: items_data_def bind_eq_Inr Let_def)
  from items_loop_Inr [OF loop] obtain lines where
    l: "map calc_line items = map Inr lines"
       "tw = foldl float_add (Finite False 0) (map fst lines)"
       "tv = foldl float_add (Finite False 0) (map (\<lambda>l. fst (snd l)) lines)"
       "rs = [hdr] @ map (\<lambda>(item, l). row_data L lang item (fst (snd l)) (snd (snd l))) (zip items lines)"
    by blast
  show ?thesis
    using l rows by (auto simp: sum_floats_def)
qed

lemma sample_line:
  "calc_line (sample_item d) =
     Inr (Finite False 30, Finite False (6417629469002957 / 1125899906842624),
          Finite False (2512164167142605 / 70368744177664))"
  by (simp add: calc_line_def sample_item_def float_eval)

lemma sample_formats:
  "format_2f (Finite False 30) = lit ''30.00''"
  "format_2f (Finite False (6417629469002957 / 1125899906842624)) = lit ''5.70''"
  "format_2f (Finite False (2512164167142605 / 70368744177664)) = lit ''35.70''"
  by (simp_all add: float_eval)

lemma sample_totals:
  "format_2f (sum_floats [Finite False 30, Finite False 30]) = lit ''60.00''"
  "format_2f (sum_floats [Finite False (6417629469002957 / 1125899906842624),
                          Finite False (6417629469002957 / 1125899906842624)]) = lit ''11.40''"
  "format_2f (float_add (sum_floats [Finite False 30, Finite False 30])
      (sum_floats [Finite False (6417629469002957 / 1125899906842624),
                   Finite False (6417629469002957 / 1125899906842624)])) = lit ''71.40''"
  by (simp_all add: float_eval)

lemma map_Inr_inj: "map Inr xs = map Inr ys \<Longrightarrow> xs = ys"
  by (simp add: inj_map_eq_map)

subsection \<open>Line figures and totals\<close>

text \<open>
  C1, as amended. Whenever the item table is produced, every line has a subtotal equal
  to quantity times unit price, a VAT amount equal to the subtotal times rate / 100 and a
  line total equal to their sum, where the product, the quotient and the sum are those of
  Python's floats (each rounded to the nearest binary64 value), not those of exact
  arithmetic; the row of the line displays the VAT amount and the line total, and the
  three closing rows display the running float sum of the subtotals, the running float sum
  of the VAT amounts, and the float sum of the two. For the item with quantity 3, unit
  price 10.00 and VAT rate 19 the figures format as 30.00, 5.70 and 35.70, and for two
  such items the closing rows show 60.00, 11.40 and 71.40.
\<close>

theorem line_and_total_figures:
  "(items_data L items lang_dict lang_choice = Inr rows \<longrightarrow>
      (\<exists>lines. map calc_line items = map Inr lines
         \<and> length rows = length items + 4
         \<and> (\<forall>i < length items. case lines ! i of (subtotal, vat_amount, line_total) \<Rightarrow>
               int_mul_float (quantity (items ! i)) (unit_price (items ! i)) = Inr subtotal
             \<and> (\<exists>rate. float_div_int (vat_rate (items ! i)) 100 = Inr rate
                       \<and> vat_amount = float_mul subtotal rate)
             \<and> line_total = float_add subtotal vat_amount
             \<and> rows ! Suc i ! 4 = format_2f vat_amount
             \<and> rows ! Suc i ! 5 = format_2f line_total)
         \<and> rows ! (length items + 1) ! 5 = format_2f (sum_floats (map fst lines))
         \<and> rows ! (length items + 2) ! 5 = format_2f (sum_floats (map (\<lambda>l. fst (snd l)) lines))
         \<and> rows ! (length items + 3) ! 5 =
             format_2f (float_add (sum_floats (map fst lines))
                                  (sum_floats (map (\<lambda>l. fst (snd l)) lines)))))
   \<and> (\<exists>subtotal vat_amount line_total.
         calc_line (sample_item d) = Inr (subtotal, vat_amount, line_total)
         \<and> format_2f subtotal = lit ''30.00''
         \<and> format_2f vat_amount = lit ''5.70''
         \<and> format_2f line_total = lit ''35.70'')
   \<and> (items_data L2 [sample_item d1, sample_item d2] lang_dict2 lang_choice2 = Inr rows2 \<longrightarrow>
         rows2 ! 3 ! 5 = lit ''60.00'' \<and> rows2 ! 4 ! 5 = lit ''11.40'' \<and> rows2 ! 5 ! 5 = lit ''71.40'')"
proof (intro conjI impI)
  assume a: "items_data L items lang_dict lang_choice = Inr rows"
  from items_data_Inr [OF a] obtain lines hdr a b c where
    lines: "map calc_line items = map Inr lines" and
    rows: "rows = hdr # map (\<lambda>(item, l). row_data L lang_choice item (fst (snd l)) (snd (snd l))) (zip items lines) @
         [[[], [], [], [], a, format_2f (sum_floats (map fst lines))],
          [[], [], [], [], b, format_2f (sum_floats (map (\<lambda>l. fst (snd l)) lines))],
          [[], [], [], [], c, format_2f (float_add (sum_floats (map fst lines))
                                         (sum_floats (map (\<lambda>l. fst (snd l)) lines)))]]"
    by blast
  from lines have len: "length lines = length items"
    by (metis length_map)
  have per: "case lines ! i of (subtotal, vat_amount, line_total) \<Rightarrow>
               int_mul_float (quantity (items ! i)) (unit_price (items ! i)) = Inr subtotal
             \<and> (\<exists>rate. float_div_int (vat_rate (items ! i)) 100 = Inr rate
                       \<and> vat_amount = float_mul subtotal rate)
             \<and> line_total = float_add subtotal vat_amount
             \<and> rows ! Suc i ! 4 = format_2f vat_amount
             \<and> rows ! Suc i ! 5 = format_2f line_total" if i: "i < length items" for i
  proof -
    obtain s v t where l: "lines ! i = (s, v, t)" by (cases "lines ! i")
    from lines i len have "calc_line (items ! i) = Inr (lines ! i)"
      by (metis nth_map)
    then have c: "calc_line (items ! i) = Inr (s, v, t)" by (simp add: l)
    have r: "rows ! Suc i = row_data L lang_choice (items ! i) v t"
      using i len by (simp add: rows nth_append l)
    show ?thesis
      using c by (simp add: l r calc_line_eq_Inr row_data_def)
  qed
  have all: "\<forall>i < length items. case lines ! i of (subtotal, vat_amount, line_total) \<Rightarrow>
               int_mul_float (quantity (items ! i)) (unit_price (items ! i)) = Inr subtotal
             \<and> (\<exists>rate. float_div_int (vat_rate (items ! i)) 100 = Inr rate
                       \<and> vat_amount = float_mul subtotal rate)
             \<and> line_total = float_add subtotal vat_amount
             \<and> rows ! Suc i ! 4 = format_2f vat_amount
             \<and> rows ! Suc i ! 5 = format_2f line_total"
    by (intro allI impI) (rule per)
  have n: "length rows = length items + 4" by (simp add: rows len)
  have t1: "rows ! (length items + 1) ! 5 = format_2f (sum_floats (map fst lines))"
    by (simp add: rows len nth_append)
  have t2: "rows ! (length items + 2) ! 5 = format_2f (sum_floats (map (\<lambda>l. fst (snd l)) lines))"
    by (simp add: rows len nth_append)
  have t3: "rows ! (length items + 3) ! 5 =
             format_2f (float_add (sum_floats (map fst lines))
                                  (sum_floats (map (\<lambda>l. fst (snd l)) lines)))"
    by (simp add: rows len nth_append)
  show "\<exists>lines. map calc_line items = map Inr lines
         \<and> length rows = length items + 4
         \<and> (\<forall>i < length items. case lines ! i of (subtotal, vat_amount, line_total) \<Rightarrow>
               int_mul_float (quantity (items ! i)) (unit_price (items ! i)) = Inr subtotal
             \<and> (\<exists>rate. float_div_int (vat_rate (items ! i)) 100 = Inr rate
                       \<and> vat_amount = float_mul subtotal rate)
             \<and> line_total = float_add subtotal vat_amount
             \<and> rows ! Suc i ! 4 = format_2f vat_amount
             \<and> rows ! Suc i ! 5 = format_2f line_total)
         \<and> rows ! (length items + 1) ! 5 = format_2f (sum_floats (map fst lines))
         \<and> rows ! (length items + 2) ! 5 = format_2f (sum_floats (map (\<lambda>l. fst (snd l)) lines))
         \<and> rows ! (length items + 3) ! 5 =
             format_2f (float_add (sum_floats (map fst lines))
                                  (sum_floats (map (\<lambda>l. fst (snd l)) lines)))"
    by (rule exI [of _ lines]) (intro conjI lines n all t1 t2 t3)
next
  show "\<exists>subtotal vat_amount line_total.
         calc_line (sample_item d) = Inr (subtotal, vat_amount, line_total)
         \<and> format_2f subtotal = lit ''30.00''
         \<and> format_2f vat_amount = lit ''5.70''
         \<and> format_2f line_total = lit ''35.70''"
    using sample_line sample_formats by blast
next
  assume a: "items_data L2 [sample_item d1, sample_item d2] lang_dict2 lang_choice2 = Inr rows2"
  from items_data_Inr [OF a] obtain lines hdr a b c where
    lines: "map calc_line [sample_item d1, sample_item d2] = map Inr lines" and
    rows: "rows2 = hdr # map (\<lambda>(item, l). row_data L2 lang_choice2 item (fst (snd l)) (snd (snd l)))
             (zip [sample_item d1, sample_item d2] lines) @
         [[[], [], [], [], a, format_2f (sum_floats (map fst lines))],
          [[], [], [], [], b, format_2f (sum_floats (map (\<lambda>l. fst (snd l)) lines))],
          [[], [], [], [], c, format_2f (float_add (sum_floats (map fst lines))
                                         (sum_floats (map (\<lambda>l. fst (snd l)) lines)))]]"
    by blast
  have "(map Inr lines :: (error + pyfloat \<times> pyfloat \<times> pyfloat) list) =
      map calc_line [sample_item d1, sample_item d2]"
    by (rule lines [symmetric])
  also have "\<dots> = map Inr
     [(Finite False 30, Finite False (6417629469002957 / 1125899906842624),
          Finite False (2512164167142605 / 70368744177664)),
      (Finite False 30, Finite False (6417629469002957 / 1125899906842624),
          Finite False (2512164167142605 / 70368744177664))]"
    by (simp add: sample_line)
  finally have "(map Inr lines :: (error + pyfloat \<times> pyfloat \<times> pyfloat) list) = map Inr
     [(Finite False 30, Finite False (6417629469002957 / 1125899906842624),
          Finite False (2512164167142605 / 70368744177664)),
      (Finite False 30, Finite False (6417629469002957 / 1125899906842624),
          Finite False (2512164167142605 / 70368744177664))]" .
  then have l: "lines =
     [(Finite False 30, Finite False (6417629469002957 / 1125899906842624),
          Finite False (2512164167142605 / 70368744177664)),
      (Finite False 30, Finite False (6417629469002957 / 1125899906842624),
          Finite False (2512164167142605 / 70368744177664))]"
    by (rule map_Inr_inj)
  show "rows2 ! 3 ! 5 = lit ''60.00''"
    using sample_totals(1) by (simp add: rows l numeral_3_eq_3)
  show "rows2 ! 4 ! 5 = lit ''11.40''"
    using sample_totals(2) by (simp add: rows l numeral_Bit0 [of Num.One] numeral_Bit0 [of "Num.Bit0 Num.One"] )
  show "rows2 ! 5 ! 5 = lit ''71.40''"
    using sample_totals(3) by (simp add: rows l)
qed

subsection \<open>When the rows are computed\<close>

lemma dict_get_the: "d k \<noteq> None \<Longrightarrow> dict_get d k = Inr (the (d k))"
  by (auto simp: dict_get_def)

lemma float_of_int_100: "float_of_int 100 = Inr (Finite False 100)"
  by (simp add: float_eval)

lemma float_div_int_100: "float_div_int x 100 = Inr (ieee_div x (Finite False 100))"
  by (simp add: float_div_int_def float_of_int_100 float_truediv_def)

lemma calc_line_returns:
  "float_of_int (quantity item) = Inr q \<Longrightarrow>
     calc_line item =
       Inr (float_mul q (unit_price item),
            float_mul (float_mul q (unit_price item)) (ieee_div (vat_rate item) (Finite False 100)),
            float_add (float_mul q (unit_price item))
              (float_mul (float_mul q (unit_price item)) (ieee_div (vat_rate item) (Finite False 100))))"
  by (simp add: calc_line_def int_mul_float_def float_div_int_100 Let_def)

lemma float_of_int_cases: "float_of_int i = Inl OverflowError \<or> (\<exists>q. float_of_int i = Inr q)"
  by (simp add: float_of_int_def float_round_def Let_def)

lemma calc_lines_return:
  "\<forall>item \<in> set items. float_of_int (quantity item) \<noteq> Inl OverflowError \<Longrightarrow>
     \<exists>lines. map calc_line items = map Inr lines"
proof (induction items)
  case Nil
  then show ?case by simp
next
  case (Cons item rest)
  then obtain lines where l: "map calc_line rest = map Inr lines" by auto
  from Cons.prems float_of_int_cases [of "quantity item"] obtain q where
    "float_of_int (quantity item) = Inr q" by auto
  from calc_line_returns [OF this] obtain x where "calc_line item = Inr x" by blast
  then have "map calc_line (item # rest) = map Inr (x # lines)" by (simp add: l)
  then show ?case by blast
qed

lemma items_data_returns:
  assumes keys: "has_keys lang_dict composer_keys"
    and lines: "map calc_line items = map Inr lines"
  shows "\<exists>rows. items_data L items lang_dict lang = Inr rows"
proof -
  have k: "lang_dict (lit ''description'') \<noteq> None" "lang_dict (lit ''quantity'') \<noteq> None"
    "lang_dict (lit ''unit_price'') \<noteq> None" "lang_dict (lit ''vat_rate'') \<noteq> None"
    "lang_dict (lit ''vat_amount'') \<noteq> None" "lang_dict (lit ''total'') \<noteq> None"
    "lang_dict (lit ''subtotal'') \<noteq> None" "lang_dict (lit ''total_vat'') \<noteq> None"
    using keys by (simp_all add: has_keys_def composer_keys_def)
  show ?thesis
    by (simp add: items_data_def dict_get_the k items_loop_total [OF lines] Let_def)
qed

lemma en_keys: "has_keys (map_of LANG_en) composer_keys"
  by (simp add: has_keys_def composer_keys_def LANG_en_def lit_def)
lemma fr_keys: "has_keys (map_of LANG_fr) composer_keys"
  by (simp add: has_keys_def composer_keys_def LANG_fr_def lit_def)
lemma ar_keys: "has_keys (map_of LANG_ar) composer_keys"
  by (simp add: has_keys_def composer_keys_def LANG_ar_def lit_def)

lemma two_fifty_line:
  "calc_line two_fifty_item =
     Inr (Finite False (5 / 2), Finite False (4278419646001971 / 9007199254740992),
          Finite False (6699104445713613 / 2251799813685248))"
  by (simp add: calc_line_def two_fifty_item_def float_eval)

theorem line_and_total_figures_witness:
  "(\<exists>rows. items_data ascii_libs [two_fifty_item] (map_of LANG_en) (lit ''en'') = Inr rows
      \<and> rows ! 1 ! 4 = lit ''0.47'' \<and> rows ! 1 ! 5 = lit ''2.98''
      \<and> rows ! 2 ! 5 = lit ''2.50'' \<and> rows ! 3 ! 5 = lit ''0.47'' \<and> rows ! 4 ! 5 = lit ''2.98'')
   \<and> (\<exists>rows. items_data ascii_libs [sample_item (lit ''Widget''), sample_item (lit ''Cable'')]
             (map_of LANG_en) (lit ''en'') = Inr rows
      \<and> rows ! 3 ! 5 = lit ''60.00'' \<and> rows ! 4 ! 5 = lit ''11.40'' \<and> rows ! 5 ! 5 = lit ''71.40'')"
proof
  have "map calc_line [two_fifty_item] =
      map Inr [(Finite False (5 / 2), Finite False (4278419646001971 / 9007199254740992),
                Finite False (6699104445713613 / 2251799813685248))]"
    by (simp add: two_fifty_line)
  from items_data_returns [OF en_keys this] obtain rows where
    r: "items_data ascii_libs [two_fifty_item] (map_of LANG_en) (lit ''en'') = Inr rows"
    by blast
  from line_and_total_figures [THEN conjunct1, rule_format, OF r]
  obtain lines where
    l: "map calc_line [two_fifty_item] = map Inr lines" and
    c: "\<forall>i < length [two_fifty_item].
          case lines ! i of (subtotal, vat_amount, line_total) \<Rightarrow>
               int_mul_float (quantity ([two_fifty_item] ! i)) (unit_price ([two_fifty_item] ! i))
                 = Inr subtotal
             \<and> (\<exists>rate. float_div_int (vat_rate ([two_fifty_item] ! i)) 100 = Inr rate
                       \<and> vat_amount = float_mul subtotal rate)
             \<and> line_total = float_add subtotal vat_amount
             \<and> rows ! Suc i ! 4 = format_2f vat_amount
             \<and> rows ! Suc i ! 5 = format_2f line_total" and
    t: "rows ! (length [two_fifty_item] + 1) ! 5 = format_2f (sum_floats (map fst lines))"
       "rows ! (length [two_fifty_item] + 2) ! 5 =
          format_2f (sum_floats (map (\<lambda>l. fst (snd l)) lines))"
       "rows ! (length [two_fifty_item] + 3) ! 5 =
          format_2f (float_add (sum_floats (map fst lines))
                               (sum_floats (map (\<lambda>l. fst (snd l)) lines)))"
    by blast
  have "(map Inr lines :: (error + pyfloat \<times> pyfloat \<times> pyfloat) list) =
      map Inr [(Finite False (5 / 2), Finite False (4278419646001971 / 9007199254740992),
                Finite False (6699104445713613 / 2251799813685248))]"
    using l by (simp add: two_fifty_line)
  then have ls: "lines = [(Finite False (5 / 2), Finite False (4278419646001971 / 9007199254740992),
                Finite False (6699104445713613 / 2251799813685248))]"
    by (rule map_Inr_inj)
  have f: "format_2f (Finite False (4278419646001971 / 9007199254740992)) = lit ''0.47''"
    "format_2f (Finite False (6699104445713613 / 2251799813685248)) = lit ''2.98''"
    "format_2f (sum_floats [Finite False (5 / 2)]) = lit ''2.50''"
    "format_2f (sum_floats [Finite False (4278419646001971 / 9007199254740992)]) = lit ''0.47''"
    "format_2f (float_add (sum_floats [Finite False (5 / 2)])
       (sum_floats [Finite False (4278419646001971 / 9007199254740992)])) = lit ''2.98''"
    by (simp_all add: float_eval)
  from c have r4: "rows ! 1 ! 4 = lit ''0.47''" and r5: "rows ! 1 ! 5 = lit ''2.98''"
    by (simp_all add: ls f(1) f(2))
  have t1: "rows ! 2 ! 5 = lit ''2.50''"
    using t(1) f(3) by (simp add: ls numeral_2_eq_2)
  have t2: "rows ! 3 ! 5 = lit ''0.47''"
    using t(2) f(4) by (simp add: ls numeral_3_eq_3)
  have t3: "rows ! 4 ! 5 = lit ''2.98''"
    using t(3) f(5) by (simp add: ls)
  show "\<exists>rows. items_data ascii_libs [two_fifty_item] (map_of LANG_en) (lit ''en'') = Inr rows
      \<and> rows ! 1 ! 4 = lit ''0.47'' \<and> rows ! 1 ! 5 = lit ''2.98''
      \<and> rows ! 2 ! 5 = lit ''2.50'' \<and> rows ! 3 ! 5 = lit ''0.47'' \<and> rows ! 4 ! 5 = lit ''2.98''"
    by (rule exI [of _ rows]) (intro conjI r r4 r5 t1 t2 t3)
next
  have "map calc_line [sample_item (lit ''Widget''), sample_item (lit ''Cable'')] =
      map Inr [(Finite False 30, Finite False (6417629469002957 / 1125899906842624),
                Finite False (2512164167142605 / 70368744177664)),
               (Finite False 30, Finite False (6417629469002957 / 1125899906842624),
                Finite False (2512164167142605 / 70368744177664))]"
    by (simp add: sample_line)
  from items_data_returns [OF en_keys this] obtain rows where
    r: "items_data ascii_libs [sample_item (lit ''Widget''), sample_item (lit ''Cable'')]
             (map_of LANG_en) (lit ''en'') = Inr rows"
    by blast
  with line_and_total_figures
    [of _ _ _ _ _ _ ascii_libs "lit ''Widget''" "lit ''Cable''" "map_of LANG_en" "lit ''en''" rows]
  show "\<exists>rows. items_data ascii_libs [sample_item (lit ''Widget''), sample_item (lit ''Cable'')]
             (map_of LANG_en) (lit ''en'') = Inr rows
      \<and> rows ! 3 ! 5 = lit ''60.00'' \<and> rows ! 4 ! 5 = lit ''11.40'' \<and> rows ! 5 ! 5 = lit ''71.40''"
    by blast
qed

theorem exact_vat_differs:
  "is_binary64 (unit_price two_fifty_item) \<and> is_binary64 (vat_rate two_fifty_item)
   \<and> spec_line two_fifty_item = (5 / 2, 19 / 40, 119 / 40)
   \<and> calc_line two_fifty_item =
       Inr (Finite False (5 / 2), Finite False (4278419646001971 / 9007199254740992),
            Finite False (6699104445713613 / 2251799813685248))
   \<and> (4278419646001971 / 9007199254740992 :: rat) \<noteq> 19 / 40
   \<and> format_2f (Finite False (4278419646001971 / 9007199254740992)) = lit ''0.47''
   \<and> format_2f (Finite False (6699104445713613 / 2251799813685248)) = lit ''2.98''
   \<and> format_2f (Finite False (19 / 40)) = lit ''0.48''
   \<and> spec_format_2f (Finite False (19 / 40)) = lit ''0.48''"
proof -
  have b: "is_binary64 (unit_price two_fifty_item)" "is_binary64 (vat_rate two_fifty_item)"
    by (simp_all add: two_fifty_item_def is_binary64_def float_eval)
  have s: "spec_line two_fifty_item = (5 / 2, 19 / 40, 119 / 40)"
    by (simp add: spec_line_def two_fifty_item_def float_value_def signed_def Let_def)
  have n: "(4278419646001971 / 9007199254740992 :: rat) \<noteq> 19 / 40"
    by simp
  have f: "format_2f (Finite False (4278419646001971 / 9007199254740992)) = lit ''0.47''"
    "format_2f (Finite False (6699104445713613 / 2251799813685248)) = lit ''2.98''"
    "format_2f (Finite False (19 / 40)) = lit ''0.48''"
    by (simp_all add: float_eval)
  have g: "spec_format_2f (Finite False (19 / 40)) = lit ''0.48''"
    by (simp add: spec_format_2f_def round_half_away_def float_eval)
  from b s two_fifty_line n f g show ?thesis by blast
qed

subsection \<open>Structure of the story\<close>

lemma composer_keys_present:
  assumes "has_keys d composer_keys"
  shows "d (lit ''number'') \<noteq> None" "d (lit ''date'') \<noteq> None" "d (lit ''due_date'') \<noteq> None"
    "d (lit ''from'') \<noteq> None" "d (lit ''to'') \<noteq> None" "d (lit ''tax_id'') \<noteq> None"
    "d (lit ''mobile'') \<noteq> None" "d (lit ''email'') \<noteq> None" "d (lit ''details'') \<noteq> None"
    "d (lit ''payment_terms'') \<noteq> None" "d (lit ''delivery_terms'') \<noteq> None"
    "d (lit ''accept_checks'') \<noteq> None"
  using assms by (simp_all add: has_keys_def composer_keys_def)

lemma para_cell_eq_Inr: "para_cell L t s = Inr c \<longleftrightarrow> paragraph_ok L t (fontName s) \<and> c = Para t s"
  by (auto simp: para_cell_def)

lemma paragraph_eq_Inr:
  "paragraph_flowable L t s = Inr p \<longleftrightarrow> paragraph_ok L t (fontName s) \<and> p = Paragraph t s"
  by (auto simp: paragraph_flowable_def)

lemma hex_color_eq_Inr: "hex_color L v = Inr c \<longleftrightarrow> hex_color_ok L v \<and> c = HexColor v"
  by (auto simp: hex_color_def)

lemma header_part_Inr:
  "header_part L now data d color lang = Inr h \<Longrightarrow>
     \<exists>html logo_cell cmds. header_html L now data d color lang = Inr html
       \<and> h = [Table [[logo_cell, Para html (NormalArabic (font_name_of lang))]]
                 (Some [Half_doc_width, Half_doc_width]) 0 cmds,
              Spacer 1 20]"
  by (auto simp: header_part_def bind_eq_Inr Let_def para_cell_eq_Inr)

lemma parties_part_Inr:
  "parties_part L data d color lang = Inr p \<Longrightarrow> \<exists>t. p = [t, Spacer 1 20]"
  by (auto simp: parties_part_def bind_eq_Inr Let_def)

lemma items_part_Inr:
  "items_part L data items d color lang = Inr t \<Longrightarrow>
     \<exists>p rows. items_data L items d lang = Inr rows
       \<and> t = [p, Table (map (map Text) rows) None 1 (items_table_style color (font_name_of lang))]"
  by (auto simp: items_part_def bind_eq_Inr)

lemma items_part_other_items:
  assumes "items_part L data items0 d color lang = Inr t0"
    and "items_data L items d lang = Inr rows"
  shows "\<exists>p. items_part L data items d color lang =
       Inr [p, Table (map (map Text) rows) None 1 (items_table_style color (font_name_of lang))]"
  using assms by (auto simp: items_part_def bind_eq_Inr)

lemma story_Inr:
  assumes "invoice_story L now data items d color lang = Inr doc"
  shows "\<exists>h p q rows pt dt ac.
      items_data L items d lang = Inr rows
    \<and> payment_terms_block L data d color lang = Inr pt
    \<and> delivery_terms_block L data d color lang = Inr dt
    \<and> accept_checks_block L data d lang = Inr ac
    \<and> story doc = [h, Spacer 1 20, p, Spacer 1 20, q,
         Table (map (map Text) rows) None 1 (items_table_style color (font_name_of lang))]
         @ pt @ dt @ ac"
proof -
  from assms obtain hh pp tt pt dt ac where
    h: "header_part L now data d color lang = Inr hh" and
    p: "parties_part L data d color lang = Inr pp" and
    t: "items_part L data items d color lang = Inr tt" and
    b: "payment_terms_block L data d color lang = Inr pt"
       "delivery_terms_block L data d color lang = Inr dt"
       "accept_checks_block L data d lang = Inr ac" and
    s: "story doc = hh @ pp @ tt @ pt @ dt @ ac"
    by (auto simp: invoice_story_def bind_eq_Inr Let_def)
  from header_part_Inr [OF h] parties_part_Inr [OF p] items_part_Inr [OF t] s b
  show ?thesis by auto
qed

lemma story_header:
  assumes "invoice_story L now data items d color lang = Inr doc"
  shows "\<exists>html logo_cell cmds. header_html L now data d color lang = Inr html
     \<and> hd (story doc) = Table [[logo_cell, Para html (NormalArabic (font_name_of lang))]]
          (Some [Half_doc_width, Half_doc_width]) 0 cmds"
proof -
  from assms obtain hh rest where
    h: "header_part L now data d color lang = Inr hh" and
    s: "story doc = hh @ rest"
    by (auto simp: invoice_story_def bind_eq_Inr Let_def)
  from header_part_Inr [OF h] s show ?thesis by auto
qed

lemma story_other_items:
  assumes "invoice_story L now data items0 d color lang = Inr doc0"
    and "items_data L items d lang = Inr rows"
  shows "\<exists>doc. invoice_story L now data items d color lang = Inr doc"
proof -
  from assms(1) obtain c hh pp tt pt dt ac where
    c: "hex_color L color = Inr c" and
    h: "header_part L now data d color lang = Inr hh" and
    p: "parties_part L data d color lang = Inr pp" and
    t: "items_part L data items0 d color lang = Inr tt" and
    b: "payment_terms_block L data d color lang = Inr pt"
       "delivery_terms_block L data d color lang = Inr dt"
       "accept_checks_block L data d lang = Inr ac"
    by (auto simp: invoice_story_def bind_eq_Inr Let_def)
  from items_part_other_items [OF t assms(2)] obtain q where
    t': "items_part L data items d color lang =
       Inr [q, Table (map (map Text) rows) None 1 (items_table_style color (font_name_of lang))]"
    by blast
  show ?thesis
    by (simp add: invoice_story_def c h p t' b Let_def)
qed

subsection \<open>The samples with the stand-in routines\<close>

lemma ascii_reshape: "reshape_if_arabic ascii_libs t lang = t"
  by (simp add: reshape_if_arabic_def ascii_libs_def)

lemma ascii_colors:
  "hex_color ascii_libs (lit ''#1a237e'') = Inr (HexColor (lit ''#1a237e''))"
  "hex_color ascii_libs (lit ''#CCCCCC'') = Inr (HexColor (lit ''#CCCCCC''))"
  by (simp_all add: hex_color_def ascii_libs_def picker_color_def is_hex_digit_def lit_def)

lemma ascii_fields:
  "paragraph_ok ascii_libs t f = markup_scan [] t"
  "upper_nonascii ascii_libs = (\<lambda>c. [c])"
  "float_repr ascii_libs = whole_float_repr"
  "hex_color_ok ascii_libs = picker_color"
  by (simp_all add: ascii_libs_def)

lemmas sample_eval =
  dict_get_def ascii_reshape date_time_str_def due_date_str_def
  sample_data_def sample_data_fr_def sample_data_ar_def clock_def
  strftime_dmY_def strftime_HM_def pad2_def header_title_def upper_def ascii_upper_def
  para_cell_def paragraph_flowable_def ascii_fields nl_def dq_def tag_step_def float_eval

lemma sample_header_en:
  "\<exists>h. header_part ascii_libs (clock 10 30 0) sample_data (map_of LANG_en) (lit ''#1a237e'')
          (lit ''en'') = Inr h"
  by (simp add: header_part_def header_html_def LANG_en_def sample_eval)

lemma sample_header_fr:
  "\<exists>h. header_part ascii_libs (clock 10 30 0) sample_data_fr (map_of LANG_fr) (lit ''#1a237e'')
          (lit ''fr'') = Inr h"
  by (simp add: header_part_def header_html_def LANG_fr_def sample_eval)

lemma sample_header_ar:
  "\<exists>h. header_part ascii_libs (clock 10 30 0) sample_data_ar (map_of LANG_ar) (lit ''#1a237e'')
          (lit ''ar'') = Inr h"
  by (simp add: header_part_def header_html_def LANG_ar_def sample_eval)

lemma sample_parties_en:
  "\<exists>h. parties_part ascii_libs sample_data (map_of LANG_en) (lit ''#1a237e'') (lit ''en'') = Inr h"
  by (simp add: parties_part_def supplier_html_def customer_html_def LANG_en_def sample_eval)

lemma sample_parties_fr:
  "\<exists>h. parties_part ascii_libs sample_data_fr (map_of LANG_fr) (lit ''#1a237e'') (lit ''fr'') = Inr h"
  by (simp add: parties_part_def supplier_html_def customer_html_def LANG_fr_def sample_eval)

lemma sample_parties_ar:
  "\<exists>h. parties_part ascii_libs sample_data_ar (map_of LANG_ar) (lit ''#1a237e'') (lit ''ar'') = Inr h"
  by (simp add: parties_part_def supplier_html_def customer_html_def LANG_ar_def sample_eval)

lemma sample_items_en:
  "\<exists>h. items_part ascii_libs sample_data [] (map_of LANG_en) (lit ''#1a237e'') (lit ''en'') = Inr h"
  by (simp add: items_part_def items_data_def SubHeading_def hex_color_def picker_color_def
      is_hex_digit_def LANG_en_def sample_eval)

lemma sample_terms_en:
  "payment_terms_block ascii_libs sample_data (map_of LANG_en) (lit ''#1a237e'') (lit ''en'') = Inr []"
  "delivery_terms_block ascii_libs sample_data (map_of LANG_en) (lit ''#1a237e'') (lit ''en'') = Inr []"
  by (simp_all add: payment_terms_block_def delivery_terms_block_def sample_data_def
      sample_data_fr_def sample_data_ar_def)

lemma sample_checks_en:
  "\<exists>h. accept_checks_block ascii_libs sample_data (map_of LANG_en) (lit ''en'') = Inr h"
  by (simp add: accept_checks_block_def LANG_en_def sample_eval)

lemma sample_story_en:
  "\<exists>doc. invoice_story ascii_libs (clock 10 30 0) sample_data [] (map_of LANG_en) (lit ''#1a237e'')
           (lit ''en'') = Inr doc"
proof -
  from sample_header_en obtain h where
    h: "header_part ascii_libs (clock 10 30 0) sample_data (map_of LANG_en) (lit ''#1a237e'')
          (lit ''en'') = Inr h" by blast
  from sample_parties_en obtain p where
    p: "parties_part ascii_libs sample_data (map_of LANG_en) (lit ''#1a237e'') (lit ''en'') = Inr p"
    by blast
  from sample_items_en obtain t where
    t: "items_part ascii_libs sample_data [] (map_of LANG_en) (lit ''#1a237e'') (lit ''en'') = Inr t"
    by blast
  from sample_checks_en obtain a where
    a: "accept_checks_block ascii_libs sample_data (map_of LANG_en) (lit ''en'') = Inr a" by blast
  show ?thesis
    by (simp add: invoice_story_def Let_def ascii_colors h p t a sample_terms_en)
qed

lemma sample_items_fr:
  "\<exists>h. items_part ascii_libs sample_data_fr [] (map_of LANG_fr) (lit ''#1a237e'') (lit ''fr'') = Inr h"
  by (simp add: items_part_def items_data_def SubHeading_def hex_color_def picker_color_def
      is_hex_digit_def LANG_fr_def sample_eval)

lemma sample_terms_fr:
  "payment_terms_block ascii_libs sample_data_fr (map_of LANG_fr) (lit ''#1a237e'') (lit ''fr'') = Inr []"
  "delivery_terms_block ascii_libs sample_data_fr (map_of LANG_fr) (lit ''#1a237e'') (lit ''fr'') = Inr []"
  by (simp_all add: payment_terms_block_def delivery_terms_block_def sample_data_def
      sample_data_fr_def sample_data_ar_def)

lemma sample_checks_fr:
  "\<exists>h. accept_checks_block ascii_libs sample_data_fr (map_of LANG_fr) (lit ''fr'') = Inr h"
  by (simp add: accept_checks_block_def LANG_fr_def sample_eval)

lemma sample_story_fr:
  "\<exists>doc. invoice_story ascii_libs (clock 10 30 0) sample_data_fr [] (map_of LANG_fr) (lit ''#1a237e'')
           (lit ''fr'') = Inr doc"
proof -
  from sample_header_fr obtain h where
    h: "header_part ascii_libs (clock 10 30 0) sample_data_fr (map_of LANG_fr) (lit ''#1a237e'')
          (lit ''fr'') = Inr h" by blast
  from sample_parties_fr obtain p where
    p: "parties_part ascii_libs sample_data_fr (map_of LANG_fr) (lit ''#1a237e'') (lit ''fr'') = Inr p"
    by blast
  from sample_items_fr obtain t where
    t: "items_part ascii_libs sample_data_fr [] (map_of LANG_fr) (lit ''#1a237e'') (lit ''fr'') = Inr t"
    by blast
  from sample_checks_fr obtain a where
    a: "accept_checks_block ascii_libs sample_data_fr (map_of LANG_fr) (lit ''fr'') = Inr a" by blast
  show ?thesis
    by (simp add: invoice_story_def Let_def ascii_colors h p t a sample_terms_fr)
qed

lemma sample_items_ar:
  "\<exists>h. items_part ascii_libs sample_data_ar [] (map_of LANG_ar) (lit ''#1a237e'') (lit ''ar'') = Inr h"
  by (simp add: items_part_def items_data_def SubHeading_def hex_color_def picker_color_def
      is_hex_digit_def LANG_ar_def sample_eval)

lemma sample_terms_ar:
  "payment_terms_block ascii_libs sample_data_ar (map_of LANG_ar) (lit ''#1a237e'') (lit ''ar'') = Inr []"
  "delivery_terms_block ascii_libs sample_data_ar (map_of LANG_ar) (lit ''#1a237e'') (lit ''ar'') = Inr []"
  by (simp_all add: payment_terms_block_def delivery_terms_block_def sample_data_def
      sample_data_fr_def sample_data_ar_def)

lemma sample_checks_ar:
  "\<exists>h. accept_checks_block ascii_libs sample_data_ar (map_of LANG_ar) (lit ''ar'') = Inr h"
  by (simp add: accept_checks_block_def LANG_ar_def sample_eval)

lemma sample_story_ar:
  "\<exists>doc. invoice_story ascii_libs (clock 10 30 0) sample_data_ar [] (map_of LANG_ar) (lit ''#1a237e'')
           (lit ''ar'') = Inr doc"
proof -
  from sample_header_ar obtain h where
    h: "header_part ascii_libs (clock 10 30 0) sample_data_ar (map_of LANG_ar) (lit ''#1a237e'')
          (lit ''ar'') = Inr h" by blast
  from sample_parties_ar obtain p where
    p: "parties_part ascii_libs sample_data_ar (map_of LANG_ar) (lit ''#1a237e'') (lit ''ar'') = Inr p"
    by blast
  from sample_items_ar obtain t where
    t: "items_part ascii_libs sample_data_ar [] (map_of LANG_ar) (lit ''#1a237e'') (lit ''ar'') = Inr t"
    by blast
  from sample_checks_ar obtain a where
    a: "accept_checks_block ascii_libs sample_data_ar (map_of LANG_ar) (lit ''ar'') = Inr a" by blast
  show ?thesis
    by (simp add: invoice_story_def Let_def ascii_colors h p t a sample_terms_ar)
qed

text \<open>A text with an open tag, and a colour that is not hexadecimal, make the function raise.\<close>

lemma sample_bad_markup:
  "invoice_story ascii_libs (clock 10 30 0) (sample_data\<lparr>customer_name := lit ''<b>x''\<rparr>) []
     (map_of LANG_en) (lit ''#1a237e'') (lit ''en'') = Inl ValueError"
proof -
  have h: "header_part ascii_libs (clock 10 30 0) (sample_data\<lparr>customer_name := lit ''<b>x''\<rparr>)
      (map_of LANG_en) (lit ''#1a237e'') (lit ''en'') =
     header_part ascii_libs (clock 10 30 0) sample_data (map_of LANG_en) (lit ''#1a237e'') (lit ''en'')"
    by (simp add: header_part_def header_html_def date_time_str_def due_date_str_def)
  from sample_header_en obtain t where
    t: "header_part ascii_libs (clock 10 30 0) sample_data (map_of LANG_en) (lit ''#1a237e'')
          (lit ''en'') = Inr t" by blast
  have p: "parties_part ascii_libs (sample_data\<lparr>customer_name := lit ''<b>x''\<rparr>) (map_of LANG_en)
      (lit ''#1a237e'') (lit ''en'') = Inl ValueError"
    by (simp add: parties_part_def supplier_html_def customer_html_def LANG_en_def sample_eval)
  show ?thesis
    by (simp add: invoice_story_def Let_def ascii_colors h t p)
qed

lemma sample_bad_color:
  "invoice_story ascii_libs now data items d (lit ''red'') lang = Inl ValueError"
  by (simp add: invoice_story_def hex_color_def ascii_fields picker_color_def lit_def)

subsection \<open>No items\<close>

lemma items_data_empty:
  assumes "has_keys d composer_keys"
  shows "\<exists>hdr a b c. items_data L [] d lang =
     Inr [hdr, [[], [], [], [], a, lit ''0.00''], [[], [], [], [], b, lit ''0.00''],
          [[], [], [], [], c, lit ''0.00'']]"
proof -
  have k: "d (lit ''description'') \<noteq> None" "d (lit ''quantity'') \<noteq> None"
    "d (lit ''unit_price'') \<noteq> None" "d (lit ''vat_rate'') \<noteq> None"
    "d (lit ''vat_amount'') \<noteq> None" "d (lit ''total'') \<noteq> None"
    "d (lit ''subtotal'') \<noteq> None" "d (lit ''total_vat'') \<noteq> None"
    using assms by (simp_all add: has_keys_def composer_keys_def)
  have z: "format_2f (Finite False 0) = lit ''0.00''"
    by (simp add: float_eval)
  show ?thesis
    by (simp add: items_data_def dict_get_the k Let_def z signed_def)
qed

lemma items_data_keys:
  assumes "items_data L items d lang = Inr rows"
  shows "d (lit ''description'') \<noteq> None" "d (lit ''quantity'') \<noteq> None"
    "d (lit ''unit_price'') \<noteq> None" "d (lit ''vat_rate'') \<noteq> None"
    "d (lit ''vat_amount'') \<noteq> None" "d (lit ''total'') \<noteq> None"
    "d (lit ''subtotal'') \<noteq> None" "d (lit ''total_vat'') \<noteq> None"
  using assms
  by (auto simp: items_data_def bind_eq_Inr dict_get_eq_Inr Let_def split: prod.splits)

lemma items_data_empty_of:
  assumes "items_data L items d lang = Inr rows"
  shows "\<exists>hdr a b c. items_data L [] d lang =
     Inr [hdr, [[], [], [], [], a, lit ''0.00''], [[], [], [], [], b, lit ''0.00''],
          [[], [], [], [], c, lit ''0.00'']]"
proof -
  note k = items_data_keys [OF assms]
  have z: "format_2f (Finite False 0) = lit ''0.00''"
    by (simp add: float_eval)
  show ?thesis
    by (simp add: items_data_def dict_get_the k Let_def z signed_def)
qed

lemma story_table:
  assumes "invoice_story L now data items d color lang = Inr doc"
  shows "\<exists>rows. items_data L items d lang = Inr rows
    \<and> story doc ! 5 =
        Table (map (map Text) rows) None 1 (items_table_style color (font_name_of lang))"
  using story_Inr [OF assms] by auto

lemma story_empty_of:
  assumes "invoice_story L now data items d color lang = Inr doc0"
  shows "\<exists>doc hdr a b c. invoice_story L now data [] d color lang = Inr doc
    \<and> story doc ! 5 =
        Table (map (map Text)
                 [hdr, [[], [], [], [], a, lit ''0.00''], [[], [], [], [], b, lit ''0.00''],
                  [[], [], [], [], c, lit ''0.00'']])
          None 1 (items_table_style color (font_name_of lang))"
proof -
  from story_table [OF assms] obtain rows0 where
    "items_data L items d lang = Inr rows0" by blast
  from items_data_empty_of [OF this] obtain hdr a b c where
    r: "items_data L [] d lang =
     Inr [hdr, [[], [], [], [], a, lit ''0.00''], [[], [], [], [], b, lit ''0.00''],
          [[], [], [], [], c, lit ''0.00'']]" by blast
  from story_other_items [OF assms r] obtain doc where
    d: "invoice_story L now data [] d color lang = Inr doc" by blast
  from story_table [OF d] r have
    "story doc ! 5 =
        Table (map (map Text)
                 [hdr, [[], [], [], [], a, lit ''0.00''], [[], [], [], [], b, lit ''0.00''],
                  [[], [], [], [], c, lit ''0.00'']])
          None 1 (items_table_style color (font_name_of lang))"
    by auto
  with d show ?thesis by blast
qed

text \<open>
  C5. Composing with an empty item list still gives the three closing rows of the item
  table (subtotal, total VAT, grand total), each showing \<open>0.00\<close>:
  \<^item> with a dictionary that holds the keys the function reads, the rows computed for the
    empty list are the heading row and these three rows;
  \<^item> whenever the function composes a document for some item list (the PDF library
    accepting the texts, the colour and the logo), it composes one for the empty list
    too, and the item table of that document holds these rows.
  Pressing the download button with no item reports an error message, and neither
  composes nor renders: the calls on the page are the button and the message, whatever
  the rendering is.
\<close>

theorem zero_items:
  "(has_keys lang_dict composer_keys \<longrightarrow>
      (\<exists>hdr a b c. items_data L [] lang_dict lang =
         Inr [hdr, [[], [], [], [], a, lit ''0.00''], [[], [], [], [], b, lit ''0.00''],
              [[], [], [], [], c, lit ''0.00'']]))
   \<and> (\<forall>items doc0. invoice_story L now data items lang_dict color lang = Inr doc0 \<longrightarrow>
        (\<exists>doc hdr a b c.
            invoice_story L now data [] lang_dict color lang = Inr doc
          \<and> story doc ! 5 =
              Table (map (map Text)
                       [hdr, [[], [], [], [], a, lit ''0.00''], [[], [], [], [], b, lit ''0.00''],
                        [[], [], [], [], c, lit ''0.00'']])
                None 1 (items_table_style color (font_name_of lang))))
   \<and> (\<forall>download. lang_dict (lit ''download'') = Some download \<longrightarrow>
        (\<exists>msg. \<forall>render. main_download L render now built True data [] lang_dict color lang =
                  Inr [st_button download, st_error msg]))"
proof (intro conjI allI impI)
  assume "has_keys lang_dict composer_keys"
  from items_data_empty [OF this]
  show "\<exists>hdr a b c. items_data L [] lang_dict lang =
         Inr [hdr, [[], [], [], [], a, lit ''0.00''], [[], [], [], [], b, lit ''0.00''],
              [[], [], [], [], c, lit ''0.00'']]" .
next
  fix items doc0
  assume "invoice_story L now data items lang_dict color lang = Inr doc0"
  from story_empty_of [OF this]
  show "\<exists>doc hdr a b c.
            invoice_story L now data [] lang_dict color lang = Inr doc
          \<and> story doc ! 5 =
              Table (map (map Text)
                       [hdr, [[], [], [], [], a, lit ''0.00''], [[], [], [], [], b, lit ''0.00''],
                        [[], [], [], [], c, lit ''0.00'']])
                None 1 (items_table_style color (font_name_of lang))" .
next
  fix download
  assume "lang_dict (lit ''download'') = Some download"
  then show "\<exists>msg. \<forall>render. main_download L render now built True data [] lang_dict color lang =
                  Inr [st_button download, st_error msg]"
    by (simp add: main_download_def dict_get_def)
qed


lemma sample_item_rows:
  assumes "has_keys d composer_keys"
  shows "\<exists>rows. items_data L [sample_item t] d lang = Inr rows"
proof -
  have "map calc_line [sample_item t] =
      map Inr [(Finite False 30, Finite False (6417629469002957 / 1125899906842624),
                Finite False (2512164167142605 / 70368744177664))]"
    by (simp add: sample_line)
  from items_data_returns [OF assms this] show ?thesis .
qed

theorem zero_items_witness:
  "(\<exists>hdr a b c. items_data ascii_libs [] (map_of LANG_fr) (lit ''fr'') =
       Inr [hdr, [[], [], [], [], a, lit ''0.00''], [[], [], [], [], b, lit ''0.00''],
            [[], [], [], [], c, lit ''0.00'']])
   \<and> (\<exists>doc0. invoice_story ascii_libs (clock 10 30 0) sample_data_fr [sample_item (lit ''Widget'')]
          (map_of LANG_fr) (lit ''#1a237e'') (lit ''fr'') = Inr doc0)
   \<and> (\<exists>doc hdr a b c.
        invoice_story ascii_libs (clock 10 30 0) sample_data_fr [] (map_of LANG_fr)
          (lit ''#1a237e'') (lit ''fr'') = Inr doc
      \<and> story doc ! 5 =
          Table (map (map Text)
                   [hdr, [[], [], [], [], a, lit ''0.00''], [[], [], [], [], b, lit ''0.00''],
                    [[], [], [], [], c, lit ''0.00'']])
            None 1 (items_table_style (lit ''#1a237e'') (lit ''Helvetica'')))
   \<and> (\<forall>render. main_download ascii_libs render (clock 10 30 0) (clock 10 30 1) True
          sample_data_fr [] (map_of LANG_fr) (lit ''#1a237e'') (lit ''fr'') =
        Inr [st_button [84, 233, 108, 233, 99, 104, 97, 114, 103, 101, 114],
             st_error (lit ''Veuillez ajouter au moins un article.'')])"
proof -
  have f: "font_name_of (lit ''fr'') = lit ''Helvetica''"
    by (simp add: font_name_of_def lit_def)
  have d: "map_of LANG_fr (lit ''download'') =
      Some [84, 233, 108, 233, 99, 104, 97, 114, 103, 101, 114]"
    by (simp add: LANG_fr_def lit_def)
  have m: "main_download ascii_libs render (clock 10 30 0) (clock 10 30 1) True
          sample_data_fr [] (map_of LANG_fr) (lit ''#1a237e'') (lit ''fr'') =
        Inr [st_button [84, 233, 108, 233, 99, 104, 97, 114, 103, 101, 114],
             st_error (lit ''Veuillez ajouter au moins un article.'')]" for render
    by (simp add: main_download_def dict_get_def d) (simp add: lit_def)
  from sample_item_rows [OF fr_keys] obtain rows where
    "items_data ascii_libs [sample_item (lit ''Widget'')] (map_of LANG_fr) (lit ''fr'') = Inr rows"
    by blast
  with sample_story_fr story_other_items obtain doc0 where
    s: "invoice_story ascii_libs (clock 10 30 0) sample_data_fr [sample_item (lit ''Widget'')]
          (map_of LANG_fr) (lit ''#1a237e'') (lit ''fr'') = Inr doc0"
    by blast
  from zero_items [of "map_of LANG_fr" ascii_libs "lit ''fr''" "clock 10 30 0" sample_data_fr
      "lit ''#1a237e''"] fr_keys s m
  show ?thesis
    unfolding f by blast
qed

subsection \<open>Items outside the bounds\<close>

text \<open>
  C6, as amended. The function validates no line item and clamps none. With a dictionary
  that holds the keys it reads, and quantities that convert to float, the rows of the
  item table are computed for every item list, whatever the signs of quantity, price and
  rate, and the row of each item shows its quantity, unit price and rate as given.
  The items are no reason to fail: whenever the function composes a document from the
  same data with no item (the PDF library accepting the texts, the colour and the logo),
  it composes one with these items, and the rows are in its item table. (The minimum
  values are set on the input widgets of the form only.)
\<close>

theorem items_not_validated:
  assumes keys: "has_keys lang_dict composer_keys"
    and conv: "\<forall>item \<in> set items. float_of_int (quantity item) \<noteq> Inl OverflowError"
  shows "\<exists>rows.
      items_data L items lang_dict lang = Inr rows
    \<and> length rows = length items + 4
    \<and> (\<forall>i < length items.
          rows ! Suc i ! 1 = str_int (quantity (items ! i))
        \<and> rows ! Suc i ! 2 = format_2f (unit_price (items ! i))
        \<and> rows ! Suc i ! 3 = float_repr L (vat_rate (items ! i)) @ lit ''%'')
    \<and> (\<forall>doc0. invoice_story L now data [] lang_dict color lang = Inr doc0 \<longrightarrow>
          (\<exists>doc. invoice_story L now data items lang_dict color lang = Inr doc
             \<and> story doc ! 5 =
                 Table (map (map Text) rows) None 1 (items_table_style color (font_name_of lang))))"
proof -
  from calc_lines_return [OF conv] obtain lines where
    lines: "map calc_line items = map Inr lines" by blast
  from items_data_returns [OF keys lines] obtain rows where
    r: "items_data L items lang_dict lang = Inr rows" by blast
  from items_data_Inr [OF r] obtain ls hdr a b c where
    ls: "map calc_line items = map Inr ls" and
    rows: "rows = hdr # map (\<lambda>(item, l). row_data L lang item (fst (snd l)) (snd (snd l))) (zip items ls) @
         [[[], [], [], [], a, format_2f (sum_floats (map fst ls))],
          [[], [], [], [], b, format_2f (sum_floats (map (\<lambda>l. fst (snd l)) ls))],
          [[], [], [], [], c, format_2f (float_add (sum_floats (map fst ls))
                                         (sum_floats (map (\<lambda>l. fst (snd l)) ls)))]]"
    by blast
  from ls have len: "length ls = length items"
    by (metis length_map)
  have n: "length rows = length items + 4"
    by (simp add: rows len)
  have cells: "\<forall>i < length items.
          rows ! Suc i ! 1 = str_int (quantity (items ! i))
        \<and> rows ! Suc i ! 2 = format_2f (unit_price (items ! i))
        \<and> rows ! Suc i ! 3 = float_repr L (vat_rate (items ! i)) @ lit ''%''"
  proof (intro allI impI)
    fix i assume i: "i < length items"
    have "rows ! Suc i = row_data L lang (items ! i) (fst (snd (ls ! i))) (snd (snd (ls ! i)))"
      using i len by (simp add: rows nth_append)
    then show "rows ! Suc i ! 1 = str_int (quantity (items ! i))
        \<and> rows ! Suc i ! 2 = format_2f (unit_price (items ! i))
        \<and> rows ! Suc i ! 3 = float_repr L (vat_rate (items ! i)) @ lit ''%''"
      by (simp add: row_data_def)
  qed
  have st: "\<forall>doc0. invoice_story L now data [] lang_dict color lang = Inr doc0 \<longrightarrow>
          (\<exists>doc. invoice_story L now data items lang_dict color lang = Inr doc
             \<and> story doc ! 5 =
                 Table (map (map Text) rows) None 1 (items_table_style color (font_name_of lang)))"
  proof (intro allI impI)
    fix doc0
    assume "invoice_story L now data [] lang_dict color lang = Inr doc0"
    from story_other_items [OF this r] obtain doc where
      d: "invoice_story L now data items lang_dict color lang = Inr doc" by blast
    from story_table [OF d] r have
      "story doc ! 5 =
         Table (map (map Text) rows) None 1 (items_table_style color (font_name_of lang))"
      by auto
    with d show "\<exists>doc. invoice_story L now data items lang_dict color lang = Inr doc
             \<and> story doc ! 5 =
                 Table (map (map Text) rows) None 1 (items_table_style color (font_name_of lang))"
      by blast
  qed
  show ?thesis
    by (rule exI [of _ rows]) (intro conjI r n cells st)
qed

lemma negative_line:
  "calc_line negative_item = Inr (Finite False 10, Finite True 1, Finite False 9)"
  by (simp add: calc_line_def negative_item_def float_eval)

lemma negative_rows:
  "items_data ascii_libs [negative_item] (map_of LANG_en) (lit ''en'') =
       Inr [[lit ''Description'', lit ''Quantity'', lit ''Unit Price'', lit ''VAT (%)'',
             lit ''VAT Amount'', lit ''Total''],
            [lit ''Refund'', lit ''-2'', lit ''-5.00'', lit ''-10.0%'', lit ''-1.00'', lit ''9.00''],
            [[], [], [], [], lit ''Subtotal:'', lit ''10.00''],
            [[], [], [], [], lit ''Total VAT:'', lit ''-1.00''],
            [[], [], [], [], lit ''Total:'', lit ''9.00'']]"
proof -
  have k: "map_of LANG_en (lit ''description'') = Some (lit ''Description'')"
    "map_of LANG_en (lit ''quantity'') = Some (lit ''Quantity'')"
    "map_of LANG_en (lit ''unit_price'') = Some (lit ''Unit Price'')"
    "map_of LANG_en (lit ''vat_rate'') = Some (lit ''VAT (%)'')"
    "map_of LANG_en (lit ''vat_amount'') = Some (lit ''VAT Amount'')"
    "map_of LANG_en (lit ''total'') = Some (lit ''Total'')"
    "map_of LANG_en (lit ''subtotal'') = Some (lit ''Subtotal'')"
    "map_of LANG_en (lit ''total_vat'') = Some (lit ''Total VAT'')"
    by (simp_all add: LANG_en_def lit_def)
  have row: "row_data ascii_libs (lit ''en'') negative_item (Finite True 1) (Finite False 9) =
      [lit ''Refund'', lit ''-2'', lit ''-5.00'', lit ''-10.0%'', lit ''-1.00'', lit ''9.00'']"
    unfolding row_data_def ascii_reshape
    by (simp add: negative_item_def ascii_fields whole_float_repr_def str_int_def float_eval)
  have tot: "format_2f (float_add (Finite False 0) (Finite False 10)) = lit ''10.00''"
    "format_2f (float_add (Finite False 0) (Finite True 1)) = lit ''-1.00''"
    "format_2f (float_add (float_add (Finite False 0) (Finite False 10))
                          (float_add (Finite False 0) (Finite True 1))) = lit ''9.00''"
    by (simp_all add: float_eval)
  show ?thesis
    unfolding items_data_def Let_def dict_get_def k option.case bind_Inr ascii_reshape
      items_loop.simps negative_line prod.case row tot
    by (simp add: lit_def)
qed

theorem items_not_validated_witness:
  "\<exists>doc rows.
      items_data ascii_libs [negative_item] (map_of LANG_en) (lit ''en'') = Inr rows
    \<and> invoice_story ascii_libs (clock 10 30 0) sample_data [negative_item]
        (map_of LANG_en) (lit ''#1a237e'') (lit ''en'') = Inr doc
    \<and> story doc ! 5 =
        Table (map (map Text) rows) None 1 (items_table_style (lit ''#1a237e'') (lit ''Helvetica''))
    \<and> length rows = 5
    \<and> rows ! 1 ! 1 = lit ''-2'' \<and> rows ! 1 ! 2 = lit ''-5.00'' \<and> rows ! 1 ! 3 = lit ''-10.0%''"
proof -
  have c: "\<forall>item \<in> set [negative_item]. float_of_int (quantity item) \<noteq> Inl OverflowError"
    by (simp add: negative_item_def float_eval)
  have f: "font_name_of (lit ''en'') = lit ''Helvetica''"
    by (simp add: font_name_of_def lit_def)
  have v: "str_int (quantity negative_item) = lit ''-2''"
    "format_2f (unit_price negative_item) = lit ''-5.00''"
    "float_repr ascii_libs (vat_rate negative_item) @ lit ''%'' = lit ''-10.0%''"
    by (simp_all add: negative_item_def ascii_fields whole_float_repr_def str_int_def float_eval)
  from sample_story_en obtain doc0 where
    s: "invoice_story ascii_libs (clock 10 30 0) sample_data [] (map_of LANG_en) (lit ''#1a237e'')
           (lit ''en'') = Inr doc0" by blast
  from items_not_validated [OF en_keys c, of ascii_libs "lit ''en''" "clock 10 30 0" sample_data
      "lit ''#1a237e''"] s
  show ?thesis
    unfolding f by (auto simp: v)
qed

theorem negative_item_composed:
  "\<not> spec_item_bounds negative_item
   \<and> (\<exists>doc. invoice_story ascii_libs (clock 10 30 0) sample_data [negative_item]
              (map_of LANG_en) (lit ''#1a237e'') (lit ''en'') = Inr doc
        \<and> story doc ! 5 =
            Table (map (map Text)
              [[lit ''Description'', lit ''Quantity'', lit ''Unit Price'', lit ''VAT (%)'',
                lit ''VAT Amount'', lit ''Total''],
               [lit ''Refund'', lit ''-2'', lit ''-5.00'', lit ''-10.0%'', lit ''-1.00'', lit ''9.00''],
               [[], [], [], [], lit ''Subtotal:'', lit ''10.00''],
               [[], [], [], [], lit ''Total VAT:'', lit ''-1.00''],
               [[], [], [], [], lit ''Total:'', lit ''9.00'']])
              None 1 (items_table_style (lit ''#1a237e'') (lit ''Helvetica'')))"
proof -
  have b: "\<not> spec_item_bounds negative_item"
    by (simp add: spec_item_bounds_def negative_item_def)
  have f: "font_name_of (lit ''en'') = lit ''Helvetica''"
    by (simp add: font_name_of_def lit_def)
  from sample_story_en obtain doc0 where
    "invoice_story ascii_libs (clock 10 30 0) sample_data [] (map_of LANG_en) (lit ''#1a237e'')
           (lit ''en'') = Inr doc0" by blast
  from story_other_items [OF this negative_rows] obtain doc where
    d: "invoice_story ascii_libs (clock 10 30 0) sample_data [negative_item]
              (map_of LANG_en) (lit ''#1a237e'') (lit ''en'') = Inr doc" by blast
  from story_table [OF d] negative_rows f have
    "story doc ! 5 =
            Table (map (map Text)
              [[lit ''Description'', lit ''Quantity'', lit ''Unit Price'', lit ''VAT (%)'',
                lit ''VAT Amount'', lit ''Total''],
               [lit ''Refund'', lit ''-2'', lit ''-5.00'', lit ''-10.0%'', lit ''-1.00'', lit ''9.00''],
               [[], [], [], [], lit ''Subtotal:'', lit ''10.00''],
               [[], [], [], [], lit ''Total VAT:'', lit ''-1.00''],
               [[], [], [], [], lit ''Total:'', lit ''9.00'']])
              None 1 (items_table_style (lit ''#1a237e'') (lit ''Helvetica''))"
    by auto
  with b d show ?thesis by blast
qed

subsection \<open>The clock\<close>

lemma story_clock:
  assumes "hour now1 = hour now2" and "minute now1 = minute now2"
  shows "invoice_story L now1 data items d color lang = invoice_story L now2 data items d color lang"
  using assms
  by (simp add: invoice_story_def header_part_def header_html_def date_time_str_def
      strftime_HM_def)

lemma sample_header_en_later:
  "\<exists>h. header_part ascii_libs (clock 10 31 0) sample_data (map_of LANG_en) (lit ''#1a237e'')
          (lit ''en'') = Inr h"
  by (simp add: header_part_def header_html_def LANG_en_def sample_eval)

lemma sample_story_en_later:
  "\<exists>doc. invoice_story ascii_libs (clock 10 31 0) sample_data [] (map_of LANG_en) (lit ''#1a237e'')
           (lit ''en'') = Inr doc"
proof -
  from sample_header_en_later obtain h where
    h: "header_part ascii_libs (clock 10 31 0) sample_data (map_of LANG_en) (lit ''#1a237e'')
          (lit ''en'') = Inr h" by blast
  from sample_parties_en obtain p where
    p: "parties_part ascii_libs sample_data (map_of LANG_en) (lit ''#1a237e'') (lit ''en'') = Inr p"
    by blast
  from sample_items_en obtain t where
    t: "items_part ascii_libs sample_data [] (map_of LANG_en) (lit ''#1a237e'') (lit ''en'') = Inr t"
    by blast
  from sample_checks_en obtain a where
    a: "accept_checks_block ascii_libs sample_data (map_of LANG_en) (lit ''en'') = Inr a" by blast
  show ?thesis
    by (simp add: invoice_story_def Let_def ascii_colors h p t a sample_terms_en)
qed

lemma sample_header_differs:
  "header_html ascii_libs (clock 10 30 0) sample_data (map_of LANG_en) (lit ''#1a237e'') (lit ''en'')
   \<noteq> header_html ascii_libs (clock 10 31 0) sample_data (map_of LANG_en) (lit ''#1a237e'') (lit ''en'')"
proof -
  have k: "map_of LANG_en (lit ''number'') = Some (lit ''Number'')"
    "map_of LANG_en (lit ''date'') = Some (lit ''Date'')"
    "map_of LANG_en (lit ''due_date'') = Some (lit ''Due Date'')"
    by (simp_all add: LANG_en_def lit_def)
  have t: "date_time_str (clock 10 30 0) sample_data = lit ''07/03/2025 10:30''"
    "date_time_str (clock 10 31 0) sample_data = lit ''07/03/2025 10:31''"
    by (simp_all add: date_time_str_def sample_data_def clock_def strftime_dmY_def strftime_HM_def
        pad2_def float_eval)
  show ?thesis
    unfolding header_html_def dict_get_def k option.case bind_Inr Let_def ascii_reshape t
    by (simp add: lit_def)
qed

theorem header_reads_clock:
  "\<exists>doc1 doc2.
      invoice_story ascii_libs (clock 10 30 0) sample_data [] (map_of LANG_en) (lit ''#1a237e'')
        (lit ''en'') = Inr doc1
    \<and> invoice_story ascii_libs (clock 10 31 0) sample_data [] (map_of LANG_en) (lit ''#1a237e'')
        (lit ''en'') = Inr doc2
    \<and> hd (story doc1) \<noteq> hd (story doc2)
    \<and> doc1 \<noteq> doc2
    \<and> (\<forall>build built.
          create_modern_invoice_pdf ascii_libs build (clock 10 30 0) built sample_data []
            (map_of LANG_en) (lit ''#1a237e'') (lit ''en'') = build built doc1
        \<and> create_modern_invoice_pdf ascii_libs build (clock 10 31 0) built sample_data []
            (map_of LANG_en) (lit ''#1a237e'') (lit ''en'') = build built doc2)"
proof -
  from sample_story_en obtain doc1 where
    d1: "invoice_story ascii_libs (clock 10 30 0) sample_data [] (map_of LANG_en) (lit ''#1a237e'')
        (lit ''en'') = Inr doc1" by blast
  from sample_story_en_later obtain doc2 where
    d2: "invoice_story ascii_libs (clock 10 31 0) sample_data [] (map_of LANG_en) (lit ''#1a237e'')
        (lit ''en'') = Inr doc2" by blast
  from story_header [OF d1] story_header [OF d2] sample_header_differs
  have h: "hd (story doc1) \<noteq> hd (story doc2)" by auto
  then have n: "doc1 \<noteq> doc2" by auto
  have c: "\<forall>build built.
          create_modern_invoice_pdf ascii_libs build (clock 10 30 0) built sample_data []
            (map_of LANG_en) (lit ''#1a237e'') (lit ''en'') = build built doc1
        \<and> create_modern_invoice_pdf ascii_libs build (clock 10 31 0) built sample_data []
            (map_of LANG_en) (lit ''#1a237e'') (lit ''en'') = build built doc2"
    by (simp add: create_modern_invoice_pdf_def d1 d2)
  show ?thesis
    by (rule exI [of _ doc1], rule exI [of _ doc2]) (intro conjI d1 d2 h n c)
qed

text \<open>
  C2, as amended. The identical arguments do not determine the output: the function
  reads the clock while it composes the header, and the rendering reads it again. Two
  calls with the same arguments return byte-identical output when, in addition, the
  clock shows the same hour and minute at the two header readings and the two renderings
  read the same time, the rendering being a function of the composed document and of
  the time it reads. The output is a function of the arguments and of these two readings
  of the clock.
\<close>

theorem output_function_of_inputs_and_clock:
  assumes "hour now1 = hour now2" and "minute now1 = minute now2"
  shows "create_modern_invoice_pdf L build now1 built data items lang_dict color lang =
         create_modern_invoice_pdf L build now2 built data items lang_dict color lang"
  by (simp add: create_modern_invoice_pdf_def story_clock [OF assms])

theorem output_function_of_inputs_and_clock_witness:
  "(\<forall>build.
      create_modern_invoice_pdf ascii_libs build (clock 10 30 0) (clock 10 30 40) sample_data
        [sample_item (lit ''Widget'')] (map_of LANG_en) (lit ''#1a237e'') (lit ''en'') =
      create_modern_invoice_pdf ascii_libs build (clock 10 30 20) (clock 10 30 40) sample_data
        [sample_item (lit ''Widget'')] (map_of LANG_en) (lit ''#1a237e'') (lit ''en''))
   \<and> (\<exists>doc. invoice_story ascii_libs (clock 10 30 0) sample_data [sample_item (lit ''Widget'')]
               (map_of LANG_en) (lit ''#1a237e'') (lit ''en'') = Inr doc)"
proof -
  have h: "hour (clock 10 30 0) = hour (clock 10 30 20)"
    and m: "minute (clock 10 30 0) = minute (clock 10 30 20)"
    by (simp_all add: clock_def)
  from sample_item_rows [OF en_keys] obtain rows where
    "items_data ascii_libs [sample_item (lit ''Widget'')] (map_of LANG_en) (lit ''en'') = Inr rows"
    by blast
  with sample_story_en story_other_items have
    "\<exists>doc. invoice_story ascii_libs (clock 10 30 0) sample_data [sample_item (lit ''Widget'')]
               (map_of LANG_en) (lit ''#1a237e'') (lit ''en'') = Inr doc"
    by blast
  with output_function_of_inputs_and_clock [OF h m] show ?thesis by blast
qed

subsection \<open>The accept-checks line\<close>

lemma strip_Yes: "strip (lit ''Yes'') \<noteq> []"
  by (simp add: strip_def lit_def py_isspace_def)

lemma reshape_Yes:
  "lang = lit ''ar'' \<longrightarrow> get_display L (arabic_reshape L (lit ''Yes'')) = lit ''Yes'' \<Longrightarrow>
     reshape_if_arabic L (lit ''Yes'') lang = lit ''Yes''"
  by (simp add: reshape_if_arabic_def)

lemma story_last_block:
  assumes "invoice_story L now data items d color lang = Inr doc"
  shows "\<exists>pre ac. accept_checks_block L data d lang = Inr ac \<and> story doc = pre @ ac"
proof -
  from story_Inr [OF assms] obtain h p q rows pt dt ac where
    a: "accept_checks_block L data d lang = Inr ac" and
    s: "story doc = [h, Spacer 1 20, p, Spacer 1 20, q,
         Table (map (map Text) rows) None 1 (items_table_style color (font_name_of lang))]
         @ pt @ dt @ ac"
    by blast
  from s have "story doc = ([h, Spacer 1 20, p, Spacer 1 20, q,
         Table (map (map Text) rows) None 1 (items_table_style color (font_name_of lang))]
         @ pt @ dt) @ ac"
    by simp
  with a show ?thesis by blast
qed

text \<open>
  C10. Whenever the function composes a document for data whose accept-checks flag is
  set, the last paragraph of the story is the shaped label followed by the literal
  \<open>Yes\<close>, in every language: the literal is passed to the shaping helper, which
  returns it as it is for a language other than Arabic, and for Arabic provided that the
  shaping libraries leave the Latin word \<open>Yes\<close> unchanged. No translation is looked up.
\<close>

theorem accept_checks_yes:
  assumes doc: "invoice_story L now data items lang_dict color lang = Inr doc"
    and flag: "accept_checks data"
    and lib: "lang = lit ''ar'' \<longrightarrow> get_display L (arabic_reshape L (lit ''Yes'')) = lit ''Yes''"
  shows "\<exists>label. lang_dict (lit ''accept_checks'') = Some label
     \<and> last (story doc) =
         Paragraph (lit ''<b>'' @ reshape_if_arabic L label lang @ lit ''</b> '' @ lit ''Yes'')
           (NormalArabic (font_name_of lang))"
proof -
  from story_last_block [OF doc] obtain pre ac where
    ac: "accept_checks_block L data lang_dict lang = Inr ac" and
    s: "story doc = pre @ ac"
    by blast
  from ac flag obtain label where
    l: "lang_dict (lit ''accept_checks'') = Some label" and
    b: "ac = [Spacer 1 10,
              Paragraph (lit ''<b>'' @ reshape_if_arabic L label lang @ lit ''</b> ''
                           @ reshape_if_arabic L (lit ''Yes'') lang)
                (NormalArabic (font_name_of lang))]"
    by (auto simp: accept_checks_block_def bind_eq_Inr dict_get_eq_Inr paragraph_eq_Inr)
  show ?thesis
    using l by (simp add: s b reshape_Yes [OF lib])
qed

theorem accept_checks_yes_witness:
  "(\<exists>doc. invoice_story ascii_libs (clock 10 30 0) sample_data_fr [] (map_of LANG_fr)
             (lit ''#1a237e'') (lit ''fr'') = Inr doc
      \<and> last (story doc) =
          Paragraph (lit ''<b>'' @ [65, 99, 99, 101, 112, 116, 101, 114, 32, 108, 101, 115, 32, 99,
                                    104, 232, 113, 117, 101, 115, 32, 63] @ lit ''</b> Yes'')
            (NormalArabic (lit ''Helvetica'')))
   \<and> (\<exists>doc. invoice_story ascii_libs (clock 10 30 0) sample_data_ar [] (map_of LANG_ar)
             (lit ''#1a237e'') (lit ''ar'') = Inr doc
      \<and> last (story doc) =
          Paragraph (lit ''<b>'' @ [1602, 1576, 1608, 1604, 32, 1575, 1604, 1588, 1610, 1603, 1575,
                                    1578, 1567] @ lit ''</b> Yes'')
            (NormalArabic (lit ''Amiri'')))"
proof
  have f: "font_name_of (lit ''fr'') = lit ''Helvetica''"
    by (simp add: font_name_of_def lit_def)
  have a: "accept_checks sample_data_fr"
    by (simp add: sample_data_fr_def sample_data_def)
  have l: "lit ''fr'' = lit ''ar'' \<longrightarrow>
      get_display ascii_libs (arabic_reshape ascii_libs (lit ''Yes'')) = lit ''Yes''"
    by (simp add: lit_def)
  have k: "map_of LANG_fr (lit ''accept_checks'') =
      Some [65, 99, 99, 101, 112, 116, 101, 114, 32, 108, 101, 115, 32, 99,
            104, 232, 113, 117, 101, 115, 32, 63]"
    by (simp add: LANG_fr_def lit_def)
  from sample_story_fr obtain doc where
    d: "invoice_story ascii_libs (clock 10 30 0) sample_data_fr [] (map_of LANG_fr)
             (lit ''#1a237e'') (lit ''fr'') = Inr doc" by blast
  from accept_checks_yes [OF d a l] have
    "last (story doc) =
          Paragraph (lit ''<b>'' @ [65, 99, 99, 101, 112, 116, 101, 114, 32, 108, 101, 115, 32, 99,
                                    104, 232, 113, 117, 101, 115, 32, 63] @ lit ''</b> Yes'')
            (NormalArabic (lit ''Helvetica''))"
    unfolding k f ascii_reshape by (simp add: lit_def)
  with d show "\<exists>doc. invoice_story ascii_libs (clock 10 30 0) sample_data_fr []
             (map_of LANG_fr) (lit ''#1a237e'') (lit ''fr'') = Inr doc
      \<and> last (story doc) =
          Paragraph (lit ''<b>'' @ [65, 99, 99, 101, 112, 116, 101, 114, 32, 108, 101, 115, 32, 99,
                                    104, 232, 113, 117, 101, 115, 32, 63] @ lit ''</b> Yes'')
            (NormalArabic (lit ''Helvetica''))"
    by blast
next
  have f: "font_name_of (lit ''ar'') = lit ''Amiri''"
    by (simp add: font_name_of_def)
  have a: "accept_checks sample_data_ar"
    by (simp add: sample_data_ar_def sample_data_def)
  have l: "lit ''ar'' = lit ''ar'' \<longrightarrow>
      get_display ascii_libs (arabic_reshape ascii_libs (lit ''Yes'')) = lit ''Yes''"
    by (simp add: ascii_libs_def)
  have k: "map_of LANG_ar (lit ''accept_checks'') =
      Some [1602, 1576, 1608, 1604, 32, 1575, 1604, 1588, 1610, 1603, 1575, 1578, 1567]"
    by (simp add: LANG_ar_def lit_def)
  from sample_story_ar obtain doc where
    d: "invoice_story ascii_libs (clock 10 30 0) sample_data_ar [] (map_of LANG_ar)
             (lit ''#1a237e'') (lit ''ar'') = Inr doc" by blast
  from accept_checks_yes [OF d a l] have
    "last (story doc) =
          Paragraph (lit ''<b>'' @ [1602, 1576, 1608, 1604, 32, 1575, 1604, 1588, 1610, 1603, 1575,
                                    1578, 1567] @ lit ''</b> Yes'')
            (NormalArabic (lit ''Amiri''))"
    unfolding k f ascii_reshape by (simp add: lit_def)
  with d show "\<exists>doc. invoice_story ascii_libs (clock 10 30 0) sample_data_ar []
             (map_of LANG_ar) (lit ''#1a237e'') (lit ''ar'') = Inr doc
      \<and> last (story doc) =
          Paragraph (lit ''<b>'' @ [1602, 1576, 1608, 1604, 32, 1575, 1604, 1588, 1610, 1603, 1575,
                                    1578, 1567] @ lit ''</b> Yes'')
            (NormalArabic (lit ''Amiri''))"
    by blast
qed

subsection \<open>The title\<close>

lemma upper_uncased: "\<forall>c \<in> set s. uncased u c \<Longrightarrow> upper u s = s"
  by (induction s) (auto simp: upper_def uncased_def split: if_splits)

lemma doc_type_options_cases:
  assumes "DOC_TYPE_OPTIONS lang = Some options"
  shows "(lang = lit ''en'' \<and> options = [lit ''Invoice'', lit ''Quote''])
       \<or> (lang = lit ''fr'' \<and> options = [lit ''Facture'', lit ''Devis''])
       \<or> (lang = lit ''ar'' \<and> options = [[1601, 1575, 1578, 1608, 1585, 1577],
                                           [1593, 1585, 1590, 32, 1587, 1593, 1585]])"
proof -
  have o: "doc_type_options (map_of LANG_en) = [lit ''Invoice'', lit ''Quote'']"
    "doc_type_options (map_of LANG_fr) = [lit ''Facture'', lit ''Devis'']"
    "doc_type_options (map_of LANG_ar) = [[1601, 1575, 1578, 1608, 1585, 1577],
                                           [1593, 1585, 1590, 32, 1587, 1593, 1585]]"
    by (simp_all add: doc_type_options_def LANG_en_def LANG_fr_def LANG_ar_def lit_def)
  from assms show ?thesis
    unfolding DOC_TYPE_OPTIONS_def o
    by (auto split: if_splits)
qed

lemma not_arabic: "lit ''en'' \<noteq> lit ''ar''" "lit ''fr'' \<noteq> lit ''ar''"
  by (simp_all add: lit_def)

lemma ltr_titles_upper:
  assumes "lang \<noteq> lit ''ar''"
  shows "header_title L (lit ''Invoice'') lang = lit ''INVOICE''"
    "header_title L (lit ''Quote'') lang = lit ''QUOTE''"
    "header_title L (lit ''Facture'') lang = lit ''FACTURE''"
    "header_title L (lit ''Devis'') lang = lit ''DEVIS''"
  using assms
  by (simp_all add: header_title_def reshape_if_arabic_def upper_def ascii_upper_def lit_def)

lemma header_html_title:
  assumes "header_html L now data d color lang = Inr html"
  shows "\<exists>pre post. html = pre @ lit ''<b>'' @ header_title L (doc_type data) lang
                              @ lit ''</b>'' @ post"
proof -
  from assms obtain rest where
    h: "html = nl @ lit ''    <font color='' @ dq @ color @ dq @ lit '' size='' @ dq
                 @ lit ''18'' @ dq @ lit ''><b>'' @ header_title L (doc_type data) lang
                 @ lit ''</b></font><br/>'' @ rest"
    by (auto simp: header_html_def bind_eq_Inr Let_def)
  have o: "lit ''><b>'' = lit ''>'' @ lit ''<b>''"
    and c: "lit ''</b></font><br/>'' = lit ''</b>'' @ lit ''</font><br/>''"
    by (simp_all add: lit_def)
  have "html = (nl @ lit ''    <font color='' @ dq @ color @ dq @ lit '' size='' @ dq
                 @ lit ''18'' @ dq @ lit ''>'') @ lit ''<b>''
               @ header_title L (doc_type data) lang @ lit ''</b>''
               @ (lit ''</font><br/>'' @ rest)"
    unfolding h o c by simp
  then show ?thesis by blast
qed

text \<open>
  C8. The title is one of the two that the selector offers for the chosen language.
  In English and in French the header shows it in capitals: \<open>INVOICE\<close>, \<open>QUOTE\<close>,
  \<open>FACTURE\<close>, \<open>DEVIS\<close>, each different from the title as selected. In Arabic the header
  shows the shaped title as it is, provided that the shaped title holds no cased
  character (the code upper-cases in every language; on text in Arabic script this
  changes nothing). In every case the title of the header text, between \<open><b>\<close> and
  \<open></b>\<close>, is this string.
\<close>

theorem title_upper_for_ltr_only:
  assumes opts: "DOC_TYPE_OPTIONS lang = Some options"
    and sel: "title \<in> set options"
    and lib: "lang = lit ''ar'' \<longrightarrow>
               (\<forall>c \<in> set (reshape_if_arabic L title lang). uncased (upper_nonascii L) c)"
  shows "(lang \<noteq> lit ''ar'' \<longrightarrow>
            header_title L title lang = map ascii_upper title
          \<and> header_title L title lang \<noteq> title
          \<and> header_title L title lang \<in> {lit ''INVOICE'', lit ''QUOTE'', lit ''FACTURE'', lit ''DEVIS''})
       \<and> (lang = lit ''ar'' \<longrightarrow> header_title L title lang = reshape_if_arabic L title lang)
       \<and> (doc_type data = title \<longrightarrow>
            header_html L now data lang_dict color lang = Inr html \<longrightarrow>
            (\<exists>pre post. html = pre @ lit ''<b>'' @ header_title L title lang @ lit ''</b>'' @ post))"
proof (intro conjI impI)
  assume n: "lang \<noteq> lit ''ar''"
  with doc_type_options_cases [OF opts] sel
  have t: "title = lit ''Invoice'' \<or> title = lit ''Quote'' \<or> title = lit ''Facture''
      \<or> title = lit ''Devis''"
    by auto
  have u: "map ascii_upper (lit ''Invoice'') = lit ''INVOICE''"
    "map ascii_upper (lit ''Quote'') = lit ''QUOTE''"
    "map ascii_upper (lit ''Facture'') = lit ''FACTURE''"
    "map ascii_upper (lit ''Devis'') = lit ''DEVIS''"
    by (simp_all add: ascii_upper_def lit_def)
  have d: "lit ''INVOICE'' \<noteq> lit ''Invoice''" "lit ''QUOTE'' \<noteq> lit ''Quote''"
    "lit ''FACTURE'' \<noteq> lit ''Facture''" "lit ''DEVIS'' \<noteq> lit ''Devis''"
    by (simp_all add: lit_def)
  from t show "header_title L title lang = map ascii_upper title"
    by (auto simp: ltr_titles_upper [OF n] u)
  from t show "header_title L title lang \<noteq> title"
    by (auto simp: ltr_titles_upper [OF n] d)
  from t show "header_title L title lang \<in> {lit ''INVOICE'', lit ''QUOTE'', lit ''FACTURE'', lit ''DEVIS''}"
    by (auto simp: ltr_titles_upper [OF n])
next
  assume "lang = lit ''ar''"
  with lib show "header_title L title lang = reshape_if_arabic L title lang"
    by (simp add: header_title_def upper_uncased)
next
  assume "doc_type data = title" and "header_html L now data lang_dict color lang = Inr html"
  with header_html_title [of L now data lang_dict color lang html]
  show "\<exists>pre post. html = pre @ lit ''<b>'' @ header_title L title lang @ lit ''</b>'' @ post"
    by simp
qed


lemma doc_type_options_values:
  "DOC_TYPE_OPTIONS (lit ''en'') = Some [lit ''Invoice'', lit ''Quote'']"
  "DOC_TYPE_OPTIONS (lit ''ar'') = Some [[1601, 1575, 1578, 1608, 1585, 1577],
                                          [1593, 1585, 1590, 32, 1587, 1593, 1585]]"
  by (simp_all add: DOC_TYPE_OPTIONS_def doc_type_options_def LANG_en_def LANG_ar_def lit_def)

theorem title_upper_for_ltr_only_witness:
  "header_title ascii_libs (lit ''Invoice'') (lit ''en'') = lit ''INVOICE''
   \<and> header_title ascii_libs [1601, 1575, 1578, 1608, 1585, 1577] (lit ''ar'')
       = [1601, 1575, 1578, 1608, 1585, 1577]
   \<and> (\<exists>html pre post.
         header_html ascii_libs (clock 10 30 0) sample_data (map_of LANG_en) (lit ''#1a237e'')
           (lit ''en'') = Inr html
       \<and> html = pre @ lit ''<b>'' @ lit ''INVOICE'' @ lit ''</b>'' @ post)"
proof -
  have s: "lit ''Invoice'' \<in> set [lit ''Invoice'', lit ''Quote'']"
    "[1601, 1575, 1578, 1608, 1585, 1577] \<in> set [[1601, 1575, 1578, 1608, 1585, 1577],
                                                  [1593, 1585, 1590, 32, 1587, 1593, 1585]]"
    by simp_all
  have le: "lit ''en'' = lit ''ar'' \<longrightarrow>
      (\<forall>c \<in> set (reshape_if_arabic ascii_libs (lit ''Invoice'') (lit ''en'')).
         uncased (upper_nonascii ascii_libs) c)"
    by (simp add: lit_def)
  have la: "lit ''ar'' = lit ''ar'' \<longrightarrow>
      (\<forall>c \<in> set (reshape_if_arabic ascii_libs [1601, 1575, 1578, 1608, 1585, 1577] (lit ''ar'')).
         uncased (upper_nonascii ascii_libs) c)"
    by (simp add: ascii_reshape ascii_fields uncased_def)
  have t: "doc_type sample_data = lit ''Invoice''"
    by (simp add: sample_data_def)
  from sample_header_en obtain h where
    "header_part ascii_libs (clock 10 30 0) sample_data (map_of LANG_en) (lit ''#1a237e'')
          (lit ''en'') = Inr h" by blast
  from header_part_Inr [OF this] obtain html where
    h: "header_html ascii_libs (clock 10 30 0) sample_data (map_of LANG_en) (lit ''#1a237e'')
           (lit ''en'') = Inr html" by blast
  note en = title_upper_for_ltr_only [OF doc_type_options_values(1) s(1) le,
      of sample_data "clock 10 30 0" "map_of LANG_en" "lit ''#1a237e''" html]
  note ar = title_upper_for_ltr_only [OF doc_type_options_values(2) s(2) la]
  have u: "map ascii_upper (lit ''Invoice'') = lit ''INVOICE''"
    by (simp add: ascii_upper_def lit_def)
  from en have a: "header_title ascii_libs (lit ''Invoice'') (lit ''en'') = lit ''INVOICE''"
    by (simp add: not_arabic u)
  from ar have b: "header_title ascii_libs [1601, 1575, 1578, 1608, 1585, 1577] (lit ''ar'')
       = [1601, 1575, 1578, 1608, 1585, 1577]"
    by (simp add: ascii_reshape)
  from en t h a have "\<exists>pre post. html = pre @ lit ''<b>'' @ lit ''INVOICE'' @ lit ''</b>'' @ post"
    by simp
  with h have c: "\<exists>html pre post.
         header_html ascii_libs (clock 10 30 0) sample_data (map_of LANG_en) (lit ''#1a237e'')
           (lit ''en'') = Inr html
       \<and> html = pre @ lit ''<b>'' @ lit ''INVOICE'' @ lit ''</b>'' @ post"
    by blast
  from a b c show ?thesis by blast
qed

subsection \<open>Labels\<close>

lemma languages_entries:
  "LANGUAGES (lit ''en'') = Some (map_of LANG_en)"
  "LANGUAGES (lit ''fr'') = Some (map_of LANG_fr)"
  "LANGUAGES (lit ''ar'') = Some (map_of LANG_ar)"
  by (simp_all add: LANGUAGES_def lit_def)

lemma en_labels: "list_all (has_label (map_of LANG_en)) code_label_keys"
  by (simp add: code_label_keys_def spec_label_keys_def has_label_def LANG_en_def lit_def)

lemma fr_labels: "list_all (has_label (map_of LANG_fr)) code_label_keys"
  by (simp add: code_label_keys_def spec_label_keys_def has_label_def LANG_fr_def lit_def)

lemma ar_labels: "list_all (has_label (map_of LANG_ar)) code_label_keys"
  by (simp add: code_label_keys_def spec_label_keys_def has_label_def LANG_ar_def lit_def)

text \<open>
  C9, as amended. For every key of the closed label set, with the document-type label
  under the key \<open>document_type_label\<close> where the dictionaries hold it, each of the three
  dictionaries contains the key and maps it to a non-empty string.
\<close>

theorem labels_complete: "label_complete code_label_keys"
  by (simp add: label_complete_def supported_languages_def languages_entries
      en_labels fr_labels ar_labels)

theorem document_type_key_absent:
  "LANGUAGES (lit ''en'') = Some (map_of LANG_en)
   \<and> map_of LANG_en (lit ''document_type'') = None
   \<and> map_of LANG_fr (lit ''document_type'') = None
   \<and> map_of LANG_ar (lit ''document_type'') = None
   \<and> \<not> label_complete spec_label_keys"
proof -
  have n: "map_of LANG_en (lit ''document_type'') = None"
    "map_of LANG_fr (lit ''document_type'') = None"
    "map_of LANG_ar (lit ''document_type'') = None"
    by (simp_all add: LANG_en_def LANG_fr_def LANG_ar_def lit_def)
  have "\<not> label_complete spec_label_keys"
    by (simp add: label_complete_def supported_languages_def languages_entries
        spec_label_keys_def has_label_def n)
  with n languages_entries(1) show ?thesis by blast
qed

subsection \<open>Style of the item table\<close>

lemma items_table_style_spans:
  "rows_of (background_span n (HexColor color)) (items_table_style color font) = {0 .. 0}"
  "rows_of (textcolor_span n whitesmoke) (items_table_style color font) = {0 .. 0}"
  "rows_of (grid_span n) (items_table_style color font) = {0 .. resolve_index n (- 2)}"
  "rows_of (lineabove_span n (HexColor color)) (items_table_style color font)
     = {resolve_index n (- 3) .. resolve_index n (- 3)}"
  by (simp_all add: rows_of_def items_table_style_def row_span_def resolve_index_def)

lemma items_data_length:
  "items_data L items d lang = Inr rows \<Longrightarrow> length rows = length items + 4"
proof -
  assume a: "items_data L items d lang = Inr rows"
  from items_data_Inr [OF a] obtain lines hdr a b c where
    l: "map calc_line items = map Inr lines" and
    r: "rows = hdr # map (\<lambda>(item, l). row_data L lang item (fst (snd l)) (snd (snd l))) (zip items lines) @
         [[[], [], [], [], a, format_2f (sum_floats (map fst lines))],
          [[], [], [], [], b, format_2f (sum_floats (map (\<lambda>l. fst (snd l)) lines))],
          [[], [], [], [], c, format_2f (float_add (sum_floats (map fst lines))
                                         (sum_floats (map (\<lambda>l. fst (snd l)) lines)))]]"
    by blast
  from l have "length lines = length items" by (metis length_map)
  then show ?thesis by (simp add: r)
qed

text \<open>
  C7, as amended. In the item table (one header row, one row per item, three totals
  rows) the header row alone has the accent-color background and the light text color;
  the grid command spans every row but the last, that is the header row, the item rows
  and the subtotal and total-VAT rows, leaving out the grand-total row only; and the
  rule in the accent color is drawn above the first totals row.
\<close>

theorem items_table_style_rows:
  assumes "items_part L data items lang_dict color lang = Inr [heading, Table cells widths rep cmds]"
  shows "length cells = length items + 4
     \<and> rep = 1
     \<and> rows_of (background_span (int (length cells)) (HexColor color)) cmds = {0}
     \<and> rows_of (textcolor_span (int (length cells)) whitesmoke) cmds = {0}
     \<and> rows_of (grid_span (int (length cells))) cmds = {0 .. int (length items) + 2}
     \<and> rows_of (lineabove_span (int (length cells)) (HexColor color)) cmds
          = {int (length items) + 1}"
proof -
  from items_part_Inr [OF assms] obtain rows where
    r: "items_data L items lang_dict lang = Inr rows" and
    c: "cells = map (map Text) rows" and
    s: "cmds = items_table_style color (font_name_of lang)" and
    p: "rep = 1"
    by auto
  have n: "length cells = length items + 4"
    using items_data_length [OF r] by (simp add: c)
  show ?thesis
    by (simp add: n p s items_table_style_spans resolve_index_def)
qed

theorem items_table_style_rows_witness:
  "\<exists>heading cells widths rep cmds.
      items_part ascii_libs sample_data [sample_item (lit ''Widget'')] (map_of LANG_en)
        (lit ''#1a237e'') (lit ''en'') = Inr [heading, Table cells widths rep cmds]
    \<and> length cells = 5
    \<and> rows_of (background_span 5 (HexColor (lit ''#1a237e''))) cmds = {0}
    \<and> rows_of (grid_span 5) cmds = {0 .. 3}
    \<and> rows_of (lineabove_span 5 (HexColor (lit ''#1a237e''))) cmds = {2}"
proof -
  from sample_item_rows [OF en_keys] obtain rows where
    "items_data ascii_libs [sample_item (lit ''Widget'')] (map_of LANG_en) (lit ''en'') = Inr rows"
    by blast
  with sample_items_en items_part_other_items obtain p where
    i: "items_part ascii_libs sample_data [sample_item (lit ''Widget'')] (map_of LANG_en)
        (lit ''#1a237e'') (lit ''en'') =
       Inr [p, Table (map (map Text) rows) None 1
                 (items_table_style (lit ''#1a237e'') (font_name_of (lit ''en'')))]"
    by blast
  from items_table_style_rows [OF i] have
    "length (map (map Text) rows) = 5
    \<and> rows_of (background_span 5 (HexColor (lit ''#1a237e'')))
        (items_table_style (lit ''#1a237e'') (font_name_of (lit ''en''))) = {0}
    \<and> rows_of (grid_span 5) (items_table_style (lit ''#1a237e'') (font_name_of (lit ''en''))) = {0 .. 3}
    \<and> rows_of (lineabove_span 5 (HexColor (lit ''#1a237e'')))
        (items_table_style (lit ''#1a237e'') (font_name_of (lit ''en''))) = {2}"
    by clarsimp
  with i show ?thesis by blast
qed

theorem grid_on_totals_rows:
  "rows_of (grid_span 5) (items_table_style (lit ''#1a237e'') (lit ''Helvetica'')) = {0 .. 3}
   \<and> rows_of (grid_span 5) (items_table_style (lit ''#1a237e'') (lit ''Helvetica'')) \<noteq> {1 .. 1}"
proof -
  have g: "rows_of (grid_span 5) (items_table_style (lit ''#1a237e'') (lit ''Helvetica'')) = {0 .. 3}"
    by (simp add: items_table_style_spans resolve_index_def)
  have "(0::int) \<in> {0 .. 3}" by simp
  moreover have "(0::int) \<notin> {1 .. 1}" by simp
  ultimately have "{0 .. 3} \<noteq> {1 .. (1::int)}" by blast
  with g show ?thesis by simp
qed

subsection \<open>Rounding of displayed amounts\<close>

lemma digits_are_digits: "\<forall>d \<in> set (digits n). is_digit d"
proof (induction n rule: digits.induct)
  case (1 n)
  show ?case
  proof (cases "n < 10")
    case True
    then show ?thesis by (subst digits.simps) (simp add: is_digit_def)
  next
    case False
    with 1 have "\<forall>d \<in> set (digits (n div 10)). is_digit d" by simp
    moreover have "is_digit (48 + n mod 10)" by (simp add: is_digit_def)
    ultimately show ?thesis using False by (subst digits.simps) simp
  qed
qed

lemma digits_nonempty: "digits n \<noteq> []"
  by (subst digits.simps) simp

lemma nat_of_digits_snoc: "nat_of_digits (ds @ [d]) = 10 * nat_of_digits ds + (d - 48)"
  by (simp add: nat_of_digits_def)

lemma nat_of_digits_digits: "nat_of_digits (digits n) = n"
proof (induction n rule: digits.induct)
  case (1 n)
  show ?case
  proof (cases "n < 10")
    case True
    then show ?thesis by (subst digits.simps) (simp add: nat_of_digits_def)
  next
    case False
    with 1 have "nat_of_digits (digits (n div 10)) = n div 10" by simp
    then show ?thesis using False by (subst digits.simps) (simp add: nat_of_digits_snoc)
  qed
qed

lemma round_half_even_near: "\<bar>of_int (round_half_even x) - x\<bar> \<le> 1 / 2"
proof -
  have "of_int \<lfloor>x\<rfloor> \<le> x" "x < of_int \<lfloor>x\<rfloor> + 1" by linarith+
  then show ?thesis
    by (auto simp: round_half_even_def Let_def)
qed

lemma round_half_even_tie:
  "\<bar>of_int (round_half_even x) - x\<bar> = 1 / 2 \<Longrightarrow> even (round_half_even x)"
proof -
  assume t: "\<bar>of_int (round_half_even x) - x\<bar> = 1 / 2"
  have b: "of_int \<lfloor>x\<rfloor> \<le> x" "x < of_int \<lfloor>x\<rfloor> + 1" by linarith+
  show ?thesis
  proof (cases "x - of_int \<lfloor>x\<rfloor> = 1 / 2")
    case True
    then show ?thesis by (simp add: round_half_even_def Let_def)
  next
    case False
    with t b show ?thesis
      by (auto simp: round_half_even_def Let_def split: if_splits)
  qed
qed

lemma round_half_even_nonneg: "0 \<le> x \<Longrightarrow> 0 \<le> round_half_even x"
proof -
  assume "0 \<le> x"
  then have "0 \<le> \<lfloor>x\<rfloor>" by simp
  then show ?thesis by (auto simp: round_half_even_def Let_def)
qed

lemma format_2f_Finite:
  "format_2f (Finite s m) =
     sign_str s @ digits (nat (round_half_even (m * 100)) div 100)
       @ [46, 48 + nat (round_half_even (m * 100)) mod 100 div 10,
              48 + nat (round_half_even (m * 100)) mod 10]"
  by (simp add: format_2f_def Let_def)

lemma cents_digits:
  "nat_of_digits (digits (c div 100) @ [48 + c mod 100 div 10, 48 + c mod 10]) = c"
proof -
  have "nat_of_digits (digits (c div 100) @ [48 + c mod 100 div 10, 48 + c mod 10])
      = 10 * (10 * (c div 100) + c mod 100 div 10) + c mod 10"
    using nat_of_digits_snoc [of "digits (c div 100) @ [48 + c mod 100 div 10]" "48 + c mod 10"]
      nat_of_digits_snoc [of "digits (c div 100)" "48 + c mod 100 div 10"]
    by (simp add: nat_of_digits_digits)
  also have "\<dots> = 100 * (c div 100) + (10 * (c mod 100 div 10) + c mod 100 mod 10)"
    by (simp add: mod_mod_cancel)
  also have "\<dots> = 100 * (c div 100) + c mod 100"
    by (simp only: mult_div_mod_eq)
  also have "\<dots> = c"
    by (simp only: mult_div_mod_eq)
  finally show ?thesis .
qed

lemma items_data_display:
  assumes "items_data L items d lang = Inr rows"
  shows "\<exists>lines. map calc_line items = map Inr lines
     \<and> (\<forall>i < length items.
           rows ! Suc i = row_data L lang (items ! i) (fst (snd (lines ! i))) (snd (snd (lines ! i))))
     \<and> rows ! (length items + 1) ! 5 = format_2f (sum_floats (map fst lines))
     \<and> rows ! (length items + 2) ! 5 = format_2f (sum_floats (map (\<lambda>l. fst (snd l)) lines))
     \<and> rows ! (length items + 3) ! 5 =
         format_2f (float_add (sum_floats (map fst lines))
                              (sum_floats (map (\<lambda>l. fst (snd l)) lines)))"
proof -
  from items_data_Inr [OF assms] obtain lines hdr a b c where
    lines: "map calc_line items = map Inr lines" and
    rows: "rows = hdr # map (\<lambda>(item, l). row_data L lang item (fst (snd l)) (snd (snd l))) (zip items lines) @
         [[[], [], [], [], a, format_2f (sum_floats (map fst lines))],
          [[], [], [], [], b, format_2f (sum_floats (map (\<lambda>l. fst (snd l)) lines))],
          [[], [], [], [], c, format_2f (float_add (sum_floats (map fst lines))
                                         (sum_floats (map (\<lambda>l. fst (snd l)) lines)))]]"
    by blast
  from lines have len: "length lines = length items"
    by (metis length_map)
  have r: "\<forall>i < length items.
           rows ! Suc i = row_data L lang (items ! i) (fst (snd (lines ! i))) (snd (snd (lines ! i)))"
    using len by (simp add: rows nth_append)
  have t1: "rows ! (length items + 1) ! 5 = format_2f (sum_floats (map fst lines))"
    by (simp add: rows len nth_append)
  have t2: "rows ! (length items + 2) ! 5 = format_2f (sum_floats (map (\<lambda>l. fst (snd l)) lines))"
    by (simp add: rows len nth_append)
  have t3: "rows ! (length items + 3) ! 5 =
             format_2f (float_add (sum_floats (map fst lines))
                                  (sum_floats (map (\<lambda>l. fst (snd l)) lines)))"
    by (simp add: rows len nth_append)
  show ?thesis
    by (rule exI [of _ lines]) (intro conjI lines r t1 t2 t3)
qed

lemma format_2f_reads_back:
  assumes "0 \<le> m"
  shows "\<exists>ip a b. format_2f (Finite s m) = sign_str s @ ip @ [46, a, b]
        \<and> ip \<noteq> [] \<and> (\<forall>d \<in> set (ip @ [a, b]). is_digit d)
        \<and> \<bar>of_nat (nat_of_digits (ip @ [a, b])) / 100 - m\<bar> \<le> 1 / 200
        \<and> (\<bar>of_nat (nat_of_digits (ip @ [a, b])) / 100 - m\<bar> = 1 / 200
             \<longrightarrow> even (nat_of_digits (ip @ [a, b])))"
proof -
  define r where "r = round_half_even (m * 100)"
  define c where "c = nat r"
  from assms have "0 \<le> m * 100" by simp
  then have r0: "0 \<le> r" unfolding r_def by (rule round_half_even_nonneg)
  then have cr: "(of_nat c :: rat) = of_int r" by (simp add: c_def)
  have near: "\<bar>of_int r - m * 100\<bar> \<le> 1 / 2"
    unfolding r_def by (rule round_half_even_near)
  have tie: "\<bar>of_int r - m * 100\<bar> = 1 / 2 \<Longrightarrow> even r"
    unfolding r_def by (rule round_half_even_tie)
  have scale: "\<bar>of_nat c / 100 - m\<bar> = \<bar>of_int r - m * 100\<bar> / 100"
  proof -
    have "of_nat c / 100 - m = (of_int r - m * 100) / 100"
      by (simp add: cr field_simps)
    then have "\<bar>of_nat c / 100 - m\<bar> = \<bar>(of_int r - m * 100) / 100\<bar>"
      by (rule arg_cong)
    also have "\<dots> = \<bar>of_int r - m * 100\<bar> / \<bar>100\<bar>"
      by (rule abs_divide)
    also have "\<dots> = \<bar>of_int r - m * 100\<bar> / 100"
      by simp
    finally show ?thesis .
  qed
  let ?ip = "digits (c div 100)" and ?a = "48 + c mod 100 div 10" and ?b = "48 + c mod 10"
  have f: "format_2f (Finite s m) = sign_str s @ ?ip @ [46, ?a, ?b]"
    by (simp add: format_2f_Finite c_def r_def)
  have n: "nat_of_digits (?ip @ [?a, ?b]) = c"
    by (rule cents_digits)
  have d: "\<forall>d \<in> set (?ip @ [?a, ?b]). is_digit d"
    using digits_are_digits [of "c div 100"] by (auto simp: is_digit_def)
  have le: "\<bar>of_nat (nat_of_digits (?ip @ [?a, ?b])) / 100 - m\<bar> \<le> 1 / 200"
    unfolding n scale using near by simp
  have ev: "\<bar>of_nat (nat_of_digits (?ip @ [?a, ?b])) / 100 - m\<bar> = 1 / 200
             \<longrightarrow> even (nat_of_digits (?ip @ [?a, ?b]))"
  proof
    assume "\<bar>of_nat (nat_of_digits (?ip @ [?a, ?b])) / 100 - m\<bar> = 1 / 200"
    then have "\<bar>of_int r - m * 100\<bar> = 1 / 2"
      unfolding n scale by simp
    then have "even r" by (rule tie)
    with r0 have "even c" by (simp add: c_def even_nat_iff)
    then show "even (nat_of_digits (?ip @ [?a, ?b]))" by (simp only: n)
  qed
  show ?thesis
    by (rule exI [of _ ?ip], rule exI [of _ ?a], rule exI [of _ ?b])
      (intro conjI f digits_nonempty d le ev)
qed


lemma items_data_figures:
  assumes "items_data L items d lang = Inr rows"
  shows "\<exists>lines. map calc_line items = map Inr lines
     \<and> (\<forall>i < length items. case lines ! i of (subtotal, vat_amount, line_total) \<Rightarrow>
           int_mul_float (quantity (items ! i)) (unit_price (items ! i)) = Inr subtotal
         \<and> (\<exists>rate. float_div_int (vat_rate (items ! i)) 100 = Inr rate
                   \<and> vat_amount = float_mul subtotal rate)
         \<and> line_total = float_add subtotal vat_amount
         \<and> rows ! Suc i ! 2 = format_2f (unit_price (items ! i))
         \<and> rows ! Suc i ! 4 = format_2f vat_amount
         \<and> rows ! Suc i ! 5 = format_2f line_total)
     \<and> rows ! (length items + 1) ! 5 = format_2f (sum_floats (map fst lines))
     \<and> rows ! (length items + 2) ! 5 = format_2f (sum_floats (map (\<lambda>l. fst (snd l)) lines))
     \<and> rows ! (length items + 3) ! 5 =
         format_2f (float_add (sum_floats (map fst lines))
                              (sum_floats (map (\<lambda>l. fst (snd l)) lines)))"
proof -
  from items_data_display [OF assms] obtain lines where
    l: "map calc_line items = map Inr lines" and
    r: "\<forall>i < length items.
           rows ! Suc i = row_data L lang (items ! i) (fst (snd (lines ! i))) (snd (snd (lines ! i)))" and
    t: "rows ! (length items + 1) ! 5 = format_2f (sum_floats (map fst lines))"
       "rows ! (length items + 2) ! 5 = format_2f (sum_floats (map (\<lambda>l. fst (snd l)) lines))"
       "rows ! (length items + 3) ! 5 =
             format_2f (float_add (sum_floats (map fst lines))
                                  (sum_floats (map (\<lambda>l. fst (snd l)) lines)))"
    by blast
  from l have len: "length lines = length items"
    by (metis length_map)
  have per: "case lines ! i of (subtotal, vat_amount, line_total) \<Rightarrow>
           int_mul_float (quantity (items ! i)) (unit_price (items ! i)) = Inr subtotal
         \<and> (\<exists>rate. float_div_int (vat_rate (items ! i)) 100 = Inr rate
                   \<and> vat_amount = float_mul subtotal rate)
         \<and> line_total = float_add subtotal vat_amount
         \<and> rows ! Suc i ! 2 = format_2f (unit_price (items ! i))
         \<and> rows ! Suc i ! 4 = format_2f vat_amount
         \<and> rows ! Suc i ! 5 = format_2f line_total" if i: "i < length items" for i
  proof -
    obtain s v t where li: "lines ! i = (s, v, t)" by (cases "lines ! i")
    from l i len have "calc_line (items ! i) = Inr (lines ! i)"
      by (metis nth_map)
    then have c: "calc_line (items ! i) = Inr (s, v, t)" by (simp add: li)
    from r i have rw: "rows ! Suc i = row_data L lang (items ! i) v t"
      by (simp add: li)
    show ?thesis
      using c by (simp add: li rw calc_line_eq_Inr row_data_def)
  qed
  have all: "\<forall>i < length items. case lines ! i of (subtotal, vat_amount, line_total) \<Rightarrow>
           int_mul_float (quantity (items ! i)) (unit_price (items ! i)) = Inr subtotal
         \<and> (\<exists>rate. float_div_int (vat_rate (items ! i)) 100 = Inr rate
                   \<and> vat_amount = float_mul subtotal rate)
         \<and> line_total = float_add subtotal vat_amount
         \<and> rows ! Suc i ! 2 = format_2f (unit_price (items ! i))
         \<and> rows ! Suc i ! 4 = format_2f vat_amount
         \<and> rows ! Suc i ! 5 = format_2f line_total"
    by (intro allI impI) (rule per)
  show ?thesis
    by (rule exI [of _ lines]) (intro conjI l all t)
qed

text \<open>
  C4, as amended. The amounts are not rounded to cents before they are displayed. The
  figures of a line are the float product of quantity and unit price, the float product
  of that subtotal and rate / 100, and the float sum of the two, none of them rounded to
  cents; the figures that enter the three totals are these same floats, not the amounts
  that the cells show; and a cell is the two-digit format of its figure (unit price, VAT
  amount, line total, subtotal, total VAT, grand total). The format itself writes a sign,
  an integer part, a point and exactly two digits, denoting the amount in cents nearest to
  the value, and the even one when the value lies halfway between two: it rounds half to
  even, not half away from zero.
\<close>

theorem displayed_amounts_rounded_half_even:
  "(0 \<le> m \<longrightarrow>
      (\<exists>ip a b. format_2f (Finite s m) = sign_str s @ ip @ [46, a, b]
         \<and> ip \<noteq> [] \<and> (\<forall>d \<in> set (ip @ [a, b]). is_digit d)
         \<and> \<bar>of_nat (nat_of_digits (ip @ [a, b])) / 100 - m\<bar> \<le> 1 / 200
         \<and> (\<bar>of_nat (nat_of_digits (ip @ [a, b])) / 100 - m\<bar> = 1 / 200
              \<longrightarrow> even (nat_of_digits (ip @ [a, b])))))
   \<and> (items_data L items lang_dict lang = Inr rows \<longrightarrow>
      (\<exists>lines. map calc_line items = map Inr lines
         \<and> (\<forall>i < length items. case lines ! i of (subtotal, vat_amount, line_total) \<Rightarrow>
               int_mul_float (quantity (items ! i)) (unit_price (items ! i)) = Inr subtotal
             \<and> (\<exists>rate. float_div_int (vat_rate (items ! i)) 100 = Inr rate
                       \<and> vat_amount = float_mul subtotal rate)
             \<and> line_total = float_add subtotal vat_amount
             \<and> rows ! Suc i ! 2 = format_2f (unit_price (items ! i))
             \<and> rows ! Suc i ! 4 = format_2f vat_amount
             \<and> rows ! Suc i ! 5 = format_2f line_total)
         \<and> rows ! (length items + 1) ! 5 = format_2f (sum_floats (map fst lines))
         \<and> rows ! (length items + 2) ! 5 = format_2f (sum_floats (map (\<lambda>l. fst (snd l)) lines))
         \<and> rows ! (length items + 3) ! 5 =
             format_2f (float_add (sum_floats (map fst lines))
                                  (sum_floats (map (\<lambda>l. fst (snd l)) lines)))))"
proof (intro conjI impI)
  assume "0 \<le> m"
  then show "\<exists>ip a b. format_2f (Finite s m) = sign_str s @ ip @ [46, a, b]
         \<and> ip \<noteq> [] \<and> (\<forall>d \<in> set (ip @ [a, b]). is_digit d)
         \<and> \<bar>of_nat (nat_of_digits (ip @ [a, b])) / 100 - m\<bar> \<le> 1 / 200
         \<and> (\<bar>of_nat (nat_of_digits (ip @ [a, b])) / 100 - m\<bar> = 1 / 200
              \<longrightarrow> even (nat_of_digits (ip @ [a, b])))"
    by (rule format_2f_reads_back)
next
  assume "items_data L items lang_dict lang = Inr rows"
  then show "\<exists>lines. map calc_line items = map Inr lines
         \<and> (\<forall>i < length items. case lines ! i of (subtotal, vat_amount, line_total) \<Rightarrow>
               int_mul_float (quantity (items ! i)) (unit_price (items ! i)) = Inr subtotal
             \<and> (\<exists>rate. float_div_int (vat_rate (items ! i)) 100 = Inr rate
                       \<and> vat_amount = float_mul subtotal rate)
             \<and> line_total = float_add subtotal vat_amount
             \<and> rows ! Suc i ! 2 = format_2f (unit_price (items ! i))
             \<and> rows ! Suc i ! 4 = format_2f vat_amount
             \<and> rows ! Suc i ! 5 = format_2f line_total)
         \<and> rows ! (length items + 1) ! 5 = format_2f (sum_floats (map fst lines))
         \<and> rows ! (length items + 2) ! 5 = format_2f (sum_floats (map (\<lambda>l. fst (snd l)) lines))
         \<and> rows ! (length items + 3) ! 5 =
             format_2f (float_add (sum_floats (map fst lines))
                                  (sum_floats (map (\<lambda>l. fst (snd l)) lines)))"
    by (rule items_data_figures)
qed

lemma eighth_format: "format_2f (Finite False (1 / 8)) = lit ''0.12''"
  by (simp add: float_eval)

lemma quarter_format: "format_2f (Finite False (1 / 4)) = lit ''0.25''"
  by (simp add: float_eval)

lemma taxed_eighth_steps:
  "int_mul_float (quantity taxed_eighth_item) (unit_price taxed_eighth_item)
     = Inr (Finite False (1 / 8))"
  "float_div_int (vat_rate taxed_eighth_item) 100 = Inr (Finite False 1)"
  "sum_floats [Finite False (1 / 8)] = Finite False (1 / 8)"
  by (simp_all add: taxed_eighth_item_def float_eval)

lemma taxed_eighth_line:
  "calc_line taxed_eighth_item =
     Inr (Finite False (1 / 8), Finite False (1 / 8), Finite False (1 / 4))"
  by (simp add: calc_line_def taxed_eighth_item_def float_eval)


theorem displayed_amounts_rounded_half_even_witness:
  "(\<exists>ip a b. format_2f (Finite False (1 / 8)) = ip @ [46, a, b]
       \<and> nat_of_digits (ip @ [a, b]) = 12
       \<and> \<bar>of_nat (nat_of_digits (ip @ [a, b])) / 100 - 1 / 8\<bar> = (1 / 200 :: rat)
       \<and> even (nat_of_digits (ip @ [a, b])))
   \<and> (\<exists>rows. items_data ascii_libs [taxed_eighth_item] (map_of LANG_en) (lit ''en'') = Inr rows
       \<and> rows ! 1 ! 2 = lit ''0.12'' \<and> rows ! 1 ! 4 = lit ''0.12'' \<and> rows ! 1 ! 5 = lit ''0.25''
       \<and> rows ! 2 ! 5 = lit ''0.12'' \<and> rows ! 3 ! 5 = lit ''0.12'' \<and> rows ! 4 ! 5 = lit ''0.25'')"
proof
  have z: "(0::rat) \<le> 1 / 8" by simp
  from displayed_amounts_rounded_half_even [THEN conjunct1, rule_format, OF z, of False]
  obtain ip a b where
    f: "format_2f (Finite False (1 / 8)) = sign_str False @ ip @ [46, a, b]" and
    e: "\<bar>of_nat (nat_of_digits (ip @ [a, b])) / 100 - 1 / 8\<bar> = (1 / 200 :: rat)
          \<longrightarrow> even (nat_of_digits (ip @ [a, b]))"
    by blast
  from f have "ip @ [46, a, b] = [48, 46, 49, 50]"
    by (simp add: eighth_format [unfolded lit_def, simplified] sign_str_def)
  then have i: "ip = [48] \<and> a = 49 \<and> b = 50"
    by (auto simp: append_eq_Cons_conv)
  then have n: "nat_of_digits (ip @ [a, b]) = 12"
    by (simp add: nat_of_digits_def)
  have t: "\<bar>of_nat (nat_of_digits (ip @ [a, b])) / 100 - 1 / 8\<bar> = (1 / 200 :: rat)"
    by (simp add: n)
  from f i n t e show "\<exists>ip a b. format_2f (Finite False (1 / 8)) = ip @ [46, a, b]
       \<and> nat_of_digits (ip @ [a, b]) = 12
       \<and> \<bar>of_nat (nat_of_digits (ip @ [a, b])) / 100 - 1 / 8\<bar> = (1 / 200 :: rat)
       \<and> even (nat_of_digits (ip @ [a, b]))"
    by (auto simp: sign_str_def)
next
  have "map calc_line [taxed_eighth_item] =
      map Inr [(Finite False (1 / 8), Finite False (1 / 8), Finite False (1 / 4))]"
    by (simp add: taxed_eighth_line)
  from items_data_returns [OF en_keys this] obtain rows where
    r: "items_data ascii_libs [taxed_eighth_item] (map_of LANG_en) (lit ''en'') = Inr rows"
    by blast
  from displayed_amounts_rounded_half_even [THEN conjunct2, rule_format, OF r]
  obtain lines where
    l: "map calc_line [taxed_eighth_item] = map Inr lines" and
    c: "\<forall>i < length [taxed_eighth_item].
          case lines ! i of (subtotal, vat_amount, line_total) \<Rightarrow>
               int_mul_float (quantity ([taxed_eighth_item] ! i)) (unit_price ([taxed_eighth_item] ! i))
                 = Inr subtotal
             \<and> (\<exists>rate. float_div_int (vat_rate ([taxed_eighth_item] ! i)) 100 = Inr rate
                       \<and> vat_amount = float_mul subtotal rate)
             \<and> line_total = float_add subtotal vat_amount
             \<and> rows ! Suc i ! 2 = format_2f (unit_price ([taxed_eighth_item] ! i))
             \<and> rows ! Suc i ! 4 = format_2f vat_amount
             \<and> rows ! Suc i ! 5 = format_2f line_total" and
    t: "rows ! (length [taxed_eighth_item] + 1) ! 5 = format_2f (sum_floats (map fst lines))"
       "rows ! (length [taxed_eighth_item] + 2) ! 5 =
          format_2f (sum_floats (map (\<lambda>l. fst (snd l)) lines))"
       "rows ! (length [taxed_eighth_item] + 3) ! 5 =
          format_2f (float_add (sum_floats (map fst lines))
                               (sum_floats (map (\<lambda>l. fst (snd l)) lines)))"
    by blast
  obtain sb va lt where li: "lines ! 0 = (sb, va, lt)" by (cases "lines ! 0")
  from l have len: "length lines = 1"
    by (metis length_map length_Cons list.size(3) One_nat_def)
  from c li have
    s1: "int_mul_float (quantity taxed_eighth_item) (unit_price taxed_eighth_item) = Inr sb" and
    s2: "\<exists>rate. float_div_int (vat_rate taxed_eighth_item) 100 = Inr rate
              \<and> va = float_mul sb rate" and
    s3: "lt = float_add sb va" and
    c2: "rows ! 1 ! 2 = format_2f (unit_price taxed_eighth_item)" and
    c4: "rows ! 1 ! 4 = format_2f va" and
    c5: "rows ! 1 ! 5 = format_2f lt"
    by simp_all
  from s1 have sb: "sb = Finite False (1 / 8)"
    by (simp add: taxed_eighth_steps)
  from s2 obtain rate where
    rt: "float_div_int (vat_rate taxed_eighth_item) 100 = Inr rate" and
    v: "va = float_mul sb rate"
    by blast
  from rt have "rate = Finite False 1"
    by (simp add: taxed_eighth_steps(2))
  then have va: "va = Finite False (1 / 8)"
    by (simp add: v sb float_eval)
  from s3 have lt: "lt = Finite False (1 / 4)"
    by (simp add: sb va float_eval)
  from len li have ls: "lines = [(Finite False (1 / 8), Finite False (1 / 8), Finite False (1 / 4))]"
    by (cases lines) (simp_all add: sb va lt)
  have u: "unit_price taxed_eighth_item = Finite False (1 / 8)"
    by (simp add: taxed_eighth_item_def)
  have r2: "rows ! 1 ! 2 = lit ''0.12''" using c2 by (simp add: u eighth_format)
  have r4: "rows ! 1 ! 4 = lit ''0.12''" using c4 by (simp add: va eighth_format)
  have r5: "rows ! 1 ! 5 = lit ''0.25''" using c5 by (simp add: lt quarter_format)
  have t1: "rows ! 2 ! 5 = lit ''0.12''"
    using t(1) by (simp add: ls taxed_eighth_steps(3) eighth_format numeral_2_eq_2)
  have t2: "rows ! 3 ! 5 = lit ''0.12''"
    using t(2) by (simp add: ls taxed_eighth_steps(3) eighth_format numeral_3_eq_3)
  have t3: "rows ! 4 ! 5 = lit ''0.25''"
    using t(3) by (simp add: ls float_eval)
  show "\<exists>rows. items_data ascii_libs [taxed_eighth_item] (map_of LANG_en) (lit ''en'') = Inr rows
       \<and> rows ! 1 ! 2 = lit ''0.12'' \<and> rows ! 1 ! 4 = lit ''0.12'' \<and> rows ! 1 ! 5 = lit ''0.25''
       \<and> rows ! 2 ! 5 = lit ''0.12'' \<and> rows ! 3 ! 5 = lit ''0.12'' \<and> rows ! 4 ! 5 = lit ''0.25''"
    by (rule exI [of _ rows]) (intro conjI r r2 r4 r5 t1 t2 t3)
qed

lemma eighth_line:
  "calc_line eighth_item = Inr (Finite False (1 / 8), Finite False 0, Finite False (1 / 8))"
  by (simp add: calc_line_def eighth_item_def float_eval)

theorem eighth_rounds_to_even:
  "is_binary64 (Finite False (1 / 8))
   \<and> format_2f (Finite False (1 / 8)) = lit ''0.12''
   \<and> spec_format_2f (Finite False (1 / 8)) = lit ''0.13''
   \<and> calc_line eighth_item = Inr (Finite False (1 / 8), Finite False 0, Finite False (1 / 8))
   \<and> row_data ascii_libs (lit ''en'') eighth_item (Finite False 0) (Finite False (1 / 8)) =
       [lit ''Screw'', lit ''1'', lit ''0.12'', lit ''0.0%'', lit ''0.00'', lit ''0.12'']"
proof -
  have b: "is_binary64 (Finite False (1 / 8))"
    by (simp add: is_binary64_def float_eval)
  have s: "spec_format_2f (Finite False (1 / 8)) = lit ''0.13''"
    by (simp add: spec_format_2f_def round_half_away_def float_eval)
  have r: "row_data ascii_libs (lit ''en'') eighth_item (Finite False 0) (Finite False (1 / 8)) =
       [lit ''Screw'', lit ''1'', lit ''0.12'', lit ''0.0%'', lit ''0.00'', lit ''0.12'']"
    unfolding row_data_def ascii_reshape
    by (simp add: eighth_item_def ascii_fields whole_float_repr_def str_int_def float_eval)
  from b eighth_format s eighth_line r show ?thesis by blast
qed

end
